theory Spec2Isabelle
  imports Complex_Main
begin

section \<open>Strings of the host language\<close>

text \<open>
  A source string is a \<^typ>\<open>string\<close>: the list of its characters. The identifiers,
  addresses and amounts of this package are ASCII text, and the helpers below are the
  string methods of the host language on such text: \<open>toLowerCase\<close>, \<open>toUpperCase\<close>,
  \<open>trim\<close>, \<open>replace\<close> with a string pattern (first occurrence only), \<open>padStart\<close>,
  \<open>slice\<close> with a negative start and \<open>split\<close> on one character.
\<close>

definition char_in :: "char \<Rightarrow> char \<Rightarrow> char \<Rightarrow> bool" where
  "char_in lo hi c = ((of_char lo :: nat) \<le> of_char c \<and> (of_char c :: nat) \<le> of_char hi)"

definition is_digit :: "char \<Rightarrow> bool" where
  "is_digit c = char_in CHR ''0'' CHR ''9'' c"

definition is_lower :: "char \<Rightarrow> bool" where
  "is_lower c = char_in CHR ''a'' CHR ''z'' c"

definition is_upper :: "char \<Rightarrow> bool" where
  "is_upper c = char_in CHR ''A'' CHR ''Z'' c"

definition lower_char :: "char \<Rightarrow> char" where
  "lower_char c = (if is_upper c then char_of ((of_char c :: nat) + 32) else c)"

definition upper_char :: "char \<Rightarrow> char" where
  "upper_char c = (if is_lower c then char_of ((of_char c :: nat) - 32) else c)"

definition toLowerCase :: "string \<Rightarrow> string" where
  "toLowerCase s = map lower_char s"

definition toUpperCase :: "string \<Rightarrow> string" where
  "toUpperCase s = map upper_char s"

definition is_space :: "char \<Rightarrow> bool" where
  \<comment> \<open>the white space and line terminators of the host language among these characters:
      tab, line feed, vertical tab, form feed, carriage return, space, no-break space\<close>
  "is_space c = ((of_char c :: nat) \<in> {9, 10, 11, 12, 13, 32, 160})"

definition trim :: "string \<Rightarrow> string" where
  "trim s = rev (dropWhile is_space (rev (dropWhile is_space s)))"

fun replace_first :: "string \<Rightarrow> string \<Rightarrow> string \<Rightarrow> string" where
  "replace_first pat rep [] = (if pat = [] then rep else [])"
| "replace_first pat rep (c # cs) =
     (if take (length pat) (c # cs) = pat then rep @ drop (length pat) (c # cs)
      else c # replace_first pat rep cs)"

definition padStart :: "nat \<Rightarrow> string \<Rightarrow> string \<Rightarrow> string" where
  "padStart n fill s =
     (if n \<le> length s \<or> fill = [] then s
      else take (n - length s) (concat (replicate (n - length s) fill)) @ s)"

definition slice_last :: "nat \<Rightarrow> string \<Rightarrow> string" where
  \<comment> \<open>\<open>s.slice(-k)\<close>: the last \<open>k\<close> characters, the whole string when it is shorter\<close>
  "slice_last k s = drop (length s - k) s"

fun split_on :: "char \<Rightarrow> string \<Rightarrow> string list" where
  "split_on d [] = [[]]"
| "split_on d (c # cs) =
     (case split_on d cs of
        [] \<Rightarrow> (if c = d then [[], []] else [[c]])
      | p # ps \<Rightarrow> (if c = d then [] # p # ps else (c # p) # ps))"

section \<open>Address utilities\<close>

subsection \<open>The address patterns\<close>

definition is_hex :: "char \<Rightarrow> bool" where
  \<comment> \<open>the class \<open>[a-fA-F0-9]\<close>\<close>
  "is_hex c = (char_in CHR ''a'' CHR ''f'' c \<or> char_in CHR ''A'' CHR ''F'' c \<or> is_digit c)"

definition EVM_ADDRESS_REGEX :: "string \<Rightarrow> bool" where
  \<comment> \<open>\<open>/^0x[a-fA-F0-9]{40}$/\<close>\<close>
  "EVM_ADDRESS_REGEX s = (take 2 s = ''0x'' \<and> length s = 42 \<and> list_all is_hex (drop 2 s))"

definition is_base58 :: "char \<Rightarrow> bool" where
  \<comment> \<open>the class \<open>[1-9A-HJ-NP-Za-km-z]\<close>\<close>
  "is_base58 c =
     (char_in CHR ''1'' CHR ''9'' c \<or> char_in CHR ''A'' CHR ''H'' c \<or> char_in CHR ''J'' CHR ''N'' c
      \<or> char_in CHR ''P'' CHR ''Z'' c \<or> char_in CHR ''a'' CHR ''k'' c \<or> char_in CHR ''m'' CHR ''z'' c)"

definition SOLANA_ADDRESS_REGEX :: "string \<Rightarrow> bool" where
  \<comment> \<open>\<open>/^[1-9A-HJ-NP-Za-km-z]{32,44}$/\<close>\<close>
  "SOLANA_ADDRESS_REGEX s = (32 \<le> length s \<and> length s \<le> 44 \<and> list_all is_base58 s)"

definition STELLAR_ADDRESS_REGEX :: "string \<Rightarrow> bool" where
  \<comment> \<open>\<open>/^G[A-Z2-7]{55}$/\<close>\<close>
  "STELLAR_ADDRESS_REGEX s =
     (take 1 s = ''G'' \<and> length s = 56
      \<and> list_all (\<lambda>c. is_upper c \<or> char_in CHR ''2'' CHR ''7'' c) (drop 1 s))"

definition is_near_char :: "char \<Rightarrow> bool" where
  \<comment> \<open>the class \<open>[a-z0-9_-]\<close> under the flag \<open>i\<close>\<close>
  "is_near_char c = (is_lower c \<or> is_upper c \<or> is_digit c \<or> c = CHR ''_'' \<or> c = CHR ''-'')"

definition NEAR_ADDRESS_REGEX :: "string \<Rightarrow> bool" where
  \<comment> \<open>\<open>/^([a-z0-9_-]+\.)*[a-z0-9_-]+\.(near|testnet)$|^[a-f0-9]{64}$/i\<close>: one or more
      non-empty labels, each followed by a dot, then \<open>near\<close> or \<open>testnet\<close>; or 64 hex digits\<close>
  "NEAR_ADDRESS_REGEX s =
     (let parts = split_on CHR ''.'' s in
        (2 \<le> length parts
         \<and> (toLowerCase (last parts) = ''near'' \<or> toLowerCase (last parts) = ''testnet'')
         \<and> list_all (\<lambda>l. l \<noteq> [] \<and> list_all is_near_char l) (butlast parts))
        \<or> (length s = 64 \<and> list_all is_hex s))"

definition NOBLE_ADDRESS_REGEX :: "string \<Rightarrow> bool" where
  \<comment> \<open>\<open>/^noble[a-z0-9]{39}$/\<close>\<close>
  "NOBLE_ADDRESS_REGEX s =
     (take 5 s = ''noble'' \<and> length s = 44
      \<and> list_all (\<lambda>c. is_lower c \<or> is_digit c) (drop 5 s))"

definition HEDERA_ADDRESS_REGEX :: "string \<Rightarrow> bool" where
  \<comment> \<open>\<open>/^0\.0\.\d+$/\<close>\<close>
  "HEDERA_ADDRESS_REGEX s =
     (take 4 s = ''0.0.'' \<and> 5 \<le> length s \<and> list_all is_digit (drop 4 s))"

definition EVM_NETWORKS :: "string list" where
  "EVM_NETWORKS =
     [''ethereum'', ''polygon'', ''arbitrum'', ''optimism'', ''base'', ''avalanche'',
      ''sepolia'', ''mumbai'', ''arbitrum-sepolia'', ''optimism-sepolia'', ''base-sepolia'',
      ''fuji'']"

subsection \<open>Validation\<close>

definition validateEvmChecksum :: "string \<Rightarrow> bool" where
  \<comment> \<open>the source only tests the pattern again; nothing in its \<open>try\<close> block can throw\<close>
  "validateEvmChecksum address = EVM_ADDRESS_REGEX address"

definition validateEvmAddress :: "string \<Rightarrow> bool" where
  "validateEvmAddress address =
     (if \<not> EVM_ADDRESS_REGEX address then False
      else if address \<noteq> toLowerCase address \<and> address \<noteq> toUpperCase address
        then validateEvmChecksum address
      else True)"

definition base58Chars :: string where
  "base58Chars = ''123456789ABCDEFGHJKLMNPQRSTUVWXYZabcdefghijkmnopqrstuvwxyz''"

definition validateSolanaAddress :: "string \<Rightarrow> bool" where
  "validateSolanaAddress address =
     (if \<not> SOLANA_ADDRESS_REGEX address then False
      else list_all (\<lambda>c. c \<in> set base58Chars) address)"

definition validateStellarAddress :: "string \<Rightarrow> bool" where
  "validateStellarAddress address = STELLAR_ADDRESS_REGEX address"

definition validateNearAddress :: "string \<Rightarrow> bool" where
  "validateNearAddress address = NEAR_ADDRESS_REGEX address"

definition validateNobleAddress :: "string \<Rightarrow> bool" where
  "validateNobleAddress address = NOBLE_ADDRESS_REGEX address"

definition validateHederaAddress :: "string \<Rightarrow> bool" where
  "validateHederaAddress address = HEDERA_ADDRESS_REGEX address"

definition validateAddress :: "string \<Rightarrow> string \<Rightarrow> bool" where
  \<comment> \<open>every path of the source returns a boolean; the last branch is the source's
      \<open>default:\<close>, which tries the EVM format for a network it does not know\<close>
  "validateAddress address network =
     (if address = [] then False
      else let trimmedAddress = trim address in
        if network \<in> set EVM_NETWORKS then validateEvmAddress trimmedAddress
        else if network = ''solana'' \<or> network = ''solana-devnet''
          then validateSolanaAddress trimmedAddress
        else if network = ''stellar'' then validateStellarAddress trimmedAddress
        else if network = ''near'' then validateNearAddress trimmedAddress
        else if network = ''noble'' then validateNobleAddress trimmedAddress
        else if network = ''hedera'' then validateHederaAddress trimmedAddress
        else validateEvmAddress trimmedAddress)"

definition getAddressType :: "string \<Rightarrow> string" where
  "getAddressType network =
     (if network \<in> set EVM_NETWORKS then ''EVM (0x...)''
      else if network = ''solana'' \<or> network = ''solana-devnet'' then ''Solana (Base58)''
      else if network = ''stellar'' then ''Stellar (G...)''
      else if network = ''near'' then ''NEAR (account.near)''
      else if network = ''noble'' then ''Noble (noble...)''
      else if network = ''hedera'' then ''Hedera (0.0.xxx)''
      else ''Unknown'')"

subsection \<open>The 32-byte form\<close>

definition hex_digit :: "nat \<Rightarrow> char" where
  "hex_digit n = (if n < 10 then char_of (48 + n) else char_of (87 + n))"

definition hex_of_bytes :: "string \<Rightarrow> string" where
  \<comment> \<open>\<open>Buffer.from(s).toString('hex')\<close> on ASCII text: two lower-case digits per character\<close>
  "hex_of_bytes s = concat (map (\<lambda>c. [hex_digit ((of_char c :: nat) div 16),
                                        hex_digit ((of_char c :: nat) mod 16)]) s)"

definition hex_value :: "char \<Rightarrow> nat" where
  "hex_value c =
     (if is_digit c then (of_char c :: nat) - 48
      else if char_in CHR ''a'' CHR ''f'' c then (of_char c :: nat) - 87
      else (of_char c :: nat) - 55)"

fun bytes_of_hex :: "string \<Rightarrow> string" where
  \<comment> \<open>\<open>Buffer.from(s, 'hex').toString()\<close> on ASCII payloads: decoding stops at the first
      pair that is not two hex digits\<close>
  "bytes_of_hex (a # b # cs) =
     (if is_hex a \<and> is_hex b then char_of (16 * hex_value a + hex_value b) # bytes_of_hex cs
      else [])"
| "bytes_of_hex cs = []"

definition addressToBytes32 :: "string \<Rightarrow> string \<Rightarrow> string" where
  "addressToBytes32 address network =
     (if network \<in> set EVM_NETWORKS then
        (let cleanAddress = replace_first ''0x'' [] (toLowerCase address)
         in ''0x'' @ padStart 64 ''0'' cleanAddress)
      else ''0x'' @ padStart 64 ''0'' (hex_of_bytes address))"

definition bytes32ToAddress :: "string \<Rightarrow> string \<Rightarrow> string" where
  "bytes32ToAddress bytes32 network =
     (if network \<in> set EVM_NETWORKS then
        (let cleanBytes = replace_first ''0x'' [] bytes32
         in ''0x'' @ slice_last 40 cleanBytes)
      else
        (let cleanBytes = dropWhile (\<lambda>c. c = CHR ''0'') (replace_first ''0x'' [] bytes32)
         in bytes_of_hex cleanBytes))"

section \<open>The network registry\<close>

text \<open>
  The tables of the package are objects keyed by network identifier; each is a finite map
  on the keys the object literal lists, in the literal's order.
\<close>

datatype chain_id = ChainNumber nat | ChainName string

record NetworkConfig =
  name :: string
  chainId :: chain_id
  nativeCurrency :: string
  explorerUrl :: string
  rpcUrl :: string
  isTestnet :: bool
  cctpDomainId :: "nat option"

definition NETWORKS_table :: "(string \<times> NetworkConfig) list" where
  "NETWORKS_table =
     [
      (''ethereum'', \<lparr>name = ''Ethereum Mainnet'', chainId = ChainNumber 1, nativeCurrency = ''ETH'',
         explorerUrl = ''https://etherscan.io'',
         rpcUrl = ''https://eth.llamarpc.com'',
         isTestnet = False, cctpDomainId = Some 0\<rparr>),
      (''polygon'', \<lparr>name = ''Polygon'', chainId = ChainNumber 137, nativeCurrency = ''MATIC'',
         explorerUrl = ''https://polygonscan.com'',
         rpcUrl = ''https://polygon.llamarpc.com'',
         isTestnet = False, cctpDomainId = Some 7\<rparr>),
      (''arbitrum'', \<lparr>name = ''Arbitrum One'', chainId = ChainNumber 42161, nativeCurrency = ''ETH'',
         explorerUrl = ''https://arbiscan.io'',
         rpcUrl = ''https://arb1.arbitrum.io/rpc'',
         isTestnet = False, cctpDomainId = Some 3\<rparr>),
      (''optimism'', \<lparr>name = ''Optimism'', chainId = ChainNumber 10, nativeCurrency = ''ETH'',
         explorerUrl = ''https://optimistic.etherscan.io'',
         rpcUrl = ''https://mainnet.optimism.io'',
         isTestnet = False, cctpDomainId = Some 2\<rparr>),
      (''base'', \<lparr>name = ''Base'', chainId = ChainNumber 8453, nativeCurrency = ''ETH'',
         explorerUrl = ''https://basescan.org'',
         rpcUrl = ''https://mainnet.base.org'',
         isTestnet = False, cctpDomainId = Some 6\<rparr>),
      (''avalanche'', \<lparr>name = ''Avalanche C-Chain'', chainId = ChainNumber 43114, nativeCurrency = ''AVAX'',
         explorerUrl = ''https://snowtrace.io'',
         rpcUrl = ''https://api.avax.network/ext/bc/C/rpc'',
         isTestnet = False, cctpDomainId = Some 1\<rparr>),
      (''solana'', \<lparr>name = ''Solana'', chainId = ChainName ''solana-mainnet'', nativeCurrency = ''SOL'',
         explorerUrl = ''https://explorer.solana.com'',
         rpcUrl = ''https://api.mainnet-beta.solana.com'',
         isTestnet = False, cctpDomainId = Some 5\<rparr>),
      (''stellar'', \<lparr>name = ''Stellar'', chainId = ChainName ''stellar-mainnet'', nativeCurrency = ''XLM'',
         explorerUrl = ''https://stellar.expert/explorer/public'',
         rpcUrl = ''https://horizon.stellar.org'',
         isTestnet = False, cctpDomainId = None\<rparr>),
      (''near'', \<lparr>name = ''NEAR Protocol'', chainId = ChainName ''near-mainnet'', nativeCurrency = ''NEAR'',
         explorerUrl = ''https://explorer.near.org'',
         rpcUrl = ''https://rpc.mainnet.near.org'',
         isTestnet = False, cctpDomainId = None\<rparr>),
      (''noble'', \<lparr>name = ''Noble (Cosmos)'', chainId = ChainName ''noble-1'', nativeCurrency = ''USDC'',
         explorerUrl = ''https://www.mintscan.io/noble'',
         rpcUrl = ''https://noble-rpc.polkachu.com'',
         isTestnet = False, cctpDomainId = Some 4\<rparr>),
      (''hedera'', \<lparr>name = ''Hedera'', chainId = ChainNumber 295, nativeCurrency = ''HBAR'',
         explorerUrl = ''https://hashscan.io/mainnet'',
         rpcUrl = ''https://mainnet.hashio.io/api'',
         isTestnet = False, cctpDomainId = None\<rparr>),
      (''sepolia'', \<lparr>name = ''Ethereum Sepolia'', chainId = ChainNumber 11155111, nativeCurrency = ''ETH'',
         explorerUrl = ''https://sepolia.etherscan.io'',
         rpcUrl = ''https://rpc.sepolia.org'',
         isTestnet = True, cctpDomainId = Some 0\<rparr>),
      (''mumbai'', \<lparr>name = ''Polygon Mumbai'', chainId = ChainNumber 80001, nativeCurrency = ''MATIC'',
         explorerUrl = ''https://mumbai.polygonscan.com'',
         rpcUrl = ''https://rpc-mumbai.maticvigil.com'',
         isTestnet = True, cctpDomainId = Some 7\<rparr>),
      (''arbitrum-sepolia'', \<lparr>name = ''Arbitrum Sepolia'', chainId = ChainNumber 421614, nativeCurrency = ''ETH'',
         explorerUrl = ''https://sepolia.arbiscan.io'',
         rpcUrl = ''https://sepolia-rollup.arbitrum.io/rpc'',
         isTestnet = True, cctpDomainId = Some 3\<rparr>),
      (''optimism-sepolia'', \<lparr>name = ''Optimism Sepolia'', chainId = ChainNumber 11155420, nativeCurrency = ''ETH'',
         explorerUrl = ''https://sepolia-optimism.etherscan.io'',
         rpcUrl = ''https://sepolia.optimism.io'',
         isTestnet = True, cctpDomainId = Some 2\<rparr>),
      (''base-sepolia'', \<lparr>name = ''Base Sepolia'', chainId = ChainNumber 84532, nativeCurrency = ''ETH'',
         explorerUrl = ''https://sepolia.basescan.org'',
         rpcUrl = ''https://sepolia.base.org'',
         isTestnet = True, cctpDomainId = Some 6\<rparr>),
      (''fuji'', \<lparr>name = ''Avalanche Fuji'', chainId = ChainNumber 43113, nativeCurrency = ''AVAX'',
         explorerUrl = ''https://testnet.snowtrace.io'',
         rpcUrl = ''https://api.avax-test.network/ext/bc/C/rpc'',
         isTestnet = True, cctpDomainId = Some 1\<rparr>),
      (''solana-devnet'', \<lparr>name = ''Solana Devnet'', chainId = ChainName ''solana-devnet'', nativeCurrency = ''SOL'',
         explorerUrl = ''https://explorer.solana.com?cluster=devnet'',
         rpcUrl = ''https://api.devnet.solana.com'',
         isTestnet = True, cctpDomainId = Some 5\<rparr>)
     ]"

definition NETWORKS :: "string \<rightharpoonup> NetworkConfig" where
  "NETWORKS = map_of NETWORKS_table"

definition getCctpDomainId :: "string \<Rightarrow> nat option" where
  "getCctpDomainId network = (case NETWORKS network of None \<Rightarrow> None | Some c \<Rightarrow> cctpDomainId c)"

section \<open>CCTP domains and routes\<close>

definition CCTP_DOMAIN_IDS :: "string \<rightharpoonup> nat" where
  "CCTP_DOMAIN_IDS = map_of
     [(''ethereum'', 0), (''avalanche'', 1), (''optimism'', 2), (''arbitrum'', 3),
      (''noble'', 4), (''solana'', 5), (''base'', 6), (''polygon'', 7),
      (''sepolia'', 0), (''fuji'', 1), (''optimism-sepolia'', 2), (''arbitrum-sepolia'', 3),
      (''base-sepolia'', 6), (''mumbai'', 7), (''solana-devnet'', 5)]"

definition ATTESTATION_SERVICE_URLS_mainnet :: string where
  "ATTESTATION_SERVICE_URLS_mainnet = ''https://iris-api.circle.com/attestations''"

definition ATTESTATION_SERVICE_URLS_testnet :: string where
  "ATTESTATION_SERVICE_URLS_testnet = ''https://iris-api-sandbox.circle.com/attestations''"

definition getAttestationServiceUrl :: "bool \<Rightarrow> string" where
  "getAttestationServiceUrl testnet =
     (if testnet then ATTESTATION_SERVICE_URLS_testnet else ATTESTATION_SERVICE_URLS_mainnet)"

definition CCTP_ROUTES_table :: "(string \<times> string list) list" where
  "CCTP_ROUTES_table =
     [(''ethereum'', [''avalanche'', ''optimism'', ''arbitrum'', ''noble'', ''solana'', ''base'', ''polygon'']),
      (''avalanche'', [''ethereum'', ''optimism'', ''arbitrum'', ''noble'', ''solana'', ''base'', ''polygon'']),
      (''optimism'', [''ethereum'', ''avalanche'', ''arbitrum'', ''noble'', ''solana'', ''base'', ''polygon'']),
      (''arbitrum'', [''ethereum'', ''avalanche'', ''optimism'', ''noble'', ''solana'', ''base'', ''polygon'']),
      (''noble'', [''ethereum'', ''avalanche'', ''optimism'', ''arbitrum'', ''solana'', ''base'', ''polygon'']),
      (''solana'', [''ethereum'', ''avalanche'', ''optimism'', ''arbitrum'', ''noble'', ''base'', ''polygon'']),
      (''base'', [''ethereum'', ''avalanche'', ''optimism'', ''arbitrum'', ''noble'', ''solana'', ''polygon'']),
      (''polygon'', [''ethereum'', ''avalanche'', ''optimism'', ''arbitrum'', ''noble'', ''solana'', ''base'']),
      (''sepolia'', [''fuji'', ''optimism-sepolia'', ''arbitrum-sepolia'', ''base-sepolia'', ''mumbai'', ''solana-devnet'']),
      (''fuji'', [''sepolia'', ''optimism-sepolia'', ''arbitrum-sepolia'', ''base-sepolia'', ''mumbai'', ''solana-devnet'']),
      (''optimism-sepolia'', [''sepolia'', ''fuji'', ''arbitrum-sepolia'', ''base-sepolia'', ''mumbai'', ''solana-devnet'']),
      (''arbitrum-sepolia'', [''sepolia'', ''fuji'', ''optimism-sepolia'', ''base-sepolia'', ''mumbai'', ''solana-devnet'']),
      (''base-sepolia'', [''sepolia'', ''fuji'', ''optimism-sepolia'', ''arbitrum-sepolia'', ''mumbai'', ''solana-devnet'']),
      (''mumbai'', [''sepolia'', ''fuji'', ''optimism-sepolia'', ''arbitrum-sepolia'', ''base-sepolia'', ''solana-devnet'']),
      (''solana-devnet'', [''sepolia'', ''fuji'', ''optimism-sepolia'', ''arbitrum-sepolia'', ''base-sepolia'', ''mumbai''])]"

definition CCTP_ROUTES :: "string \<rightharpoonup> string list" where
  "CCTP_ROUTES = map_of CCTP_ROUTES_table"

definition isRouteSupported :: "string \<Rightarrow> string \<Rightarrow> bool" where
  "isRouteSupported source destination =
     (case CCTP_ROUTES source of
        None \<Rightarrow> False
      | Some routes \<Rightarrow> destination \<in> set routes)"

definition getSupportedDestinations :: "string \<Rightarrow> string list" where
  "getSupportedDestinations source = (case CCTP_ROUTES source of None \<Rightarrow> [] | Some routes \<Rightarrow> routes)"

definition CCTP_TRANSFER_TIMES :: "string \<rightharpoonup> (string \<rightharpoonup> nat)" where
  \<comment> \<open>average transfer times in minutes; every entry has the one key \<open>default\<close>\<close>
  "CCTP_TRANSFER_TIMES = map_of
     [(''ethereum'', [''default'' \<mapsto> 15]), (''avalanche'', [''default'' \<mapsto> 3]),
      (''optimism'', [''default'' \<mapsto> 3]), (''arbitrum'', [''default'' \<mapsto> 3]),
      (''noble'', [''default'' \<mapsto> 5]), (''solana'', [''default'' \<mapsto> 1]),
      (''base'', [''default'' \<mapsto> 3]), (''polygon'', [''default'' \<mapsto> 5])]"

definition or_else :: "nat option \<Rightarrow> nat \<Rightarrow> nat" where
  \<comment> \<open>\<open>a || b\<close> on numbers: \<open>b\<close> when \<open>a\<close> is undefined or zero\<close>
  "or_else a b = (case a of None \<Rightarrow> b | Some v \<Rightarrow> if v = 0 then b else v)"

definition estimateTransferTime :: "string \<Rightarrow> string \<Rightarrow> nat" where
  "estimateTransferTime source destination =
     (case CCTP_TRANSFER_TIMES source of
        None \<Rightarrow> 20
      | Some sourceTimes \<Rightarrow>
          or_else (sourceTimes destination) (or_else (sourceTimes ''default'') 20))"

definition isTestnet_of :: "string \<Rightarrow> bool option" where
  \<comment> \<open>\<open>NETWORKS[network]?.isTestnet\<close>\<close>
  "isTestnet_of network = map_option isTestnet (NETWORKS network)"

section \<open>Contract addresses\<close>

definition USDC_CONTRACTS :: "string \<rightharpoonup> string" where
  "USDC_CONTRACTS = map_of
     [(''ethereum'', ''0xA0b86991c6218b36c1d19D4a2e9Eb0cE3606eB48''),
      (''polygon'', ''0x3c499c542cEF5E3811e1192ce70d8cC03d5c3359''),
      (''arbitrum'', ''0xaf88d065e77c8cC2239327C5EDb3A432268e5831''),
      (''optimism'', ''0x0b2C639c533813f4Aa9D7837CAf62653d097Ff85''),
      (''base'', ''0x833589fCD6eDb6E08f4c7C32D4f71b54bdA02913''),
      (''avalanche'', ''0xB97EF9Ef8734C71904D8002F8b6Bc66Dd9c48a6E''),
      (''solana'', ''EPjFWdd5AufqSSqeM2qN1xzybapC8G4wEGGkZwyTDt1v''),
      (''stellar'', ''USDC-GA5ZSEJYB37JRC5AVCIA5MOP4RHTM335X2KGX3IHOJAPP5RE34K4KZVN''),
      (''near'', ''usdc.circle-u.near''),
      (''noble'', ''uusdc''),
      (''hedera'', ''0.0.456858''),
      (''sepolia'', ''0x1c7D4B196Cb0C7B01d743Fbc6116a902379C7238''),
      (''mumbai'', ''0x9999f7Fea5938fD3b1E26A12c3f2fb024e194f97''),
      (''arbitrum-sepolia'', ''0x75faf114eafb1BDbe2F0316DF893fd58CE46AA4d''),
      (''optimism-sepolia'', ''0x5fd84259d66Cd46123540766Be93DFE6D43130D7''),
      (''base-sepolia'', ''0x036CbD53842c5426634e7929541eC2318f3dCF7e''),
      (''fuji'', ''0x5425890298aed601595a70AB815c96711a31Bc65''),
      (''solana-devnet'', ''4zMMC9srt5Ri5X14GAgXhaHii3GnPAEERYPJgZJDncDU'')]"

definition TOKEN_MESSENGER_CONTRACTS :: "string \<rightharpoonup> string" where
  "TOKEN_MESSENGER_CONTRACTS = map_of
     [(''ethereum'', ''0xBd3fa81B58Ba92a82136038B25aDec7066af3155''),
      (''avalanche'', ''0x6B25532e1060CE10cc3B0A99e5683b91BFDe6982''),
      (''optimism'', ''0x2B4069517957735bE00ceE0fadAE88a26365528f''),
      (''arbitrum'', ''0x19330d10D9Cc8751218eaf51E8885D058642E08A''),
      (''base'', ''0x1682Ae6375C4E4A97e4B583BC394c861A46D8962''),
      (''polygon'', ''0x9daF8c91AEFAE50b9c0E69629D3F6Ca40cA3B3FE''),
      (''noble'', ''noble1qg8r9pvrh4u6fgcdjs37l4g8dp2a35c3ykrzzz''),
      (''solana'', ''CCTPiPYPc6AsJuwueEnWgSgucamXDZwBd53dQ11YiKX3''),
      (''sepolia'', ''0x9f3B8679c73C2Fef8b59B4f3444d4e156fb70AA5''),
      (''fuji'', ''0xeb08f243E5d3FCFF26A9E38Ae5520A669f4019d0''),
      (''optimism-sepolia'', ''0x9f3B8679c73C2Fef8b59B4f3444d4e156fb70AA5''),
      (''arbitrum-sepolia'', ''0x9f3B8679c73C2Fef8b59B4f3444d4e156fb70AA5''),
      (''base-sepolia'', ''0x9f3B8679c73C2Fef8b59B4f3444d4e156fb70AA5''),
      (''mumbai'', ''0x9f3B8679c73C2Fef8b59B4f3444d4e156fb70AA5''),
      (''solana-devnet'', ''CCTPiPYPc6AsJuwueEnWgSgucamXDZwBd53dQ11YiKX3'')]"

definition MESSAGE_TRANSMITTER_CONTRACTS :: "string \<rightharpoonup> string" where
  "MESSAGE_TRANSMITTER_CONTRACTS = map_of
     [(''ethereum'', ''0x0a992d191DEeC32aFe36203Ad87D7d289a738F81''),
      (''avalanche'', ''0x8186359aF5F57FbB40c6b14A588d2A59C0C29880''),
      (''optimism'', ''0x4D41f22c5a0e5c74090899E5a8Fb597a8842b3e8''),
      (''arbitrum'', ''0xC30362313FBBA5cf9163F0bb16a0e01f01A896ca''),
      (''base'', ''0xAD09780d193884d503182aD4588450C416D6F9D4''),
      (''polygon'', ''0xF3be9355363857F3e001be68856A2f96b4C39Ba9''),
      (''noble'', ''noble1qqqqqqqqqqqqqqqqqqqqqqqqqqqqqqqqqq3qqvf''),
      (''solana'', ''CCTPmbSD7gX1bxKPAmg77w8oFzNFpaQiQUWD43TKaecd''),
      (''sepolia'', ''0x7865fAfC2db2093669d92c0F33AeEF291086BEFD''),
      (''fuji'', ''0xa9fB1b3009DCb79E2fe346c16a604B8Fa8aE0a79''),
      (''optimism-sepolia'', ''0x7865fAfC2db2093669d92c0F33AeEF291086BEFD''),
      (''arbitrum-sepolia'', ''0x7865fAfC2db2093669d92c0F33AeEF291086BEFD''),
      (''base-sepolia'', ''0x7865fAfC2db2093669d92c0F33AeEF291086BEFD''),
      (''mumbai'', ''0xe09A679F56207EF33F5b9d8fb4499Ec00792eA73''),
      (''solana-devnet'', ''CCTPmbSD7gX1bxKPAmg77w8oFzNFpaQiQUWD43TKaecd'')]"

section \<open>Numbers of the host language\<close>

text \<open>
  A number of the host language is an IEEE 754 binary64 value: a finite value, which is
  modelled by the rational it denotes, an infinity, or NaN. The two zeros are one value
  here; every function below that prints a number prints both as \<open>0\<close>. Arithmetic
  computes the exact rational and rounds it to the nearest binary64 value, ties to the
  even significand, as the language standard prescribes.
\<close>

datatype js_error =
    Error string
  | TypeError string
  | RangeError string
  | SyntaxError string

datatype js_number = NaN | PosInfinity | NegInfinity | Finite rat

definition pow2 :: "int \<Rightarrow> rat" where
  "pow2 e = (if 0 \<le> e then 2 ^ nat e else 1 / 2 ^ nat (- e))"

definition pow10 :: "int \<Rightarrow> rat" where
  "pow10 e = (if 0 \<le> e then 10 ^ nat e else 1 / 10 ^ nat (- e))"

fun bit_length :: "nat \<Rightarrow> nat" where
  "bit_length n = (if n = 0 then 0 else Suc (bit_length (n div 2)))"

definition ilog2 :: "rat \<Rightarrow> int" where
  \<comment> \<open>for \<open>0 < x\<close>, the integer \<open>e\<close> with \<open>2\<^sup>e \<le> x < 2\<^sup>e\<^sup>+\<^sup>1\<close>\<close>
  "ilog2 x =
     (if 1 \<le> x then int (bit_length (nat \<lfloor>x\<rfloor>)) - 1
      else - int (bit_length (nat (\<lceil>1 / x\<rceil> - 1))))"

definition round_half_even :: "rat \<Rightarrow> int" where
  "round_half_even x =
     (let f = \<lfloor>x\<rfloor>; r = x - of_int f
      in if r < 1 / 2 then f else if 1 / 2 < r then f + 1 else if even f then f else f + 1)"

definition round_to_double :: "rat \<Rightarrow> js_number" where
  \<comment> \<open>the binary64 value of a real: 53 significant bits, exponents from \<open>-1022\<close> (below
      which the spacing stays \<open>2\<^sup>-\<^sup>1\<^sup>0\<^sup>7\<^sup>4\<close>), overflow to an infinity from \<open>2\<^sup>1\<^sup>0\<^sup>2\<^sup>4\<close>\<close>
  "round_to_double x =
     (if x = 0 then Finite 0
      else let e = max (ilog2 \<bar>x\<bar>) (- 1022);
               ulp = pow2 (e - 52);
               y = of_int (round_half_even (\<bar>x\<bar> / ulp)) * ulp
           in if pow2 1024 \<le> y then (if 0 < x then PosInfinity else NegInfinity)
              else Finite (sgn x * y))"

fun js_times :: "js_number \<Rightarrow> js_number \<Rightarrow> js_number" where
  "js_times NaN b = NaN"
| "js_times a NaN = NaN"
| "js_times (Finite a) (Finite b) = round_to_double (a * b)"
| "js_times (Finite a) PosInfinity =
     (if a = 0 then NaN else if 0 < a then PosInfinity else NegInfinity)"
| "js_times (Finite a) NegInfinity =
     (if a = 0 then NaN else if 0 < a then NegInfinity else PosInfinity)"
| "js_times PosInfinity (Finite b) =
     (if b = 0 then NaN else if 0 < b then PosInfinity else NegInfinity)"
| "js_times NegInfinity (Finite b) =
     (if b = 0 then NaN else if 0 < b then NegInfinity else PosInfinity)"
| "js_times PosInfinity PosInfinity = PosInfinity"
| "js_times PosInfinity NegInfinity = NegInfinity"
| "js_times NegInfinity PosInfinity = NegInfinity"
| "js_times NegInfinity NegInfinity = PosInfinity"

fun Math_round :: "js_number \<Rightarrow> js_number" where
  \<comment> \<open>\<open>Math.round\<close>: the nearest integer, a tie going to the larger one\<close>
  "Math_round (Finite x) = Finite (of_int \<lfloor>x + 1 / 2\<rfloor>)"
| "Math_round n = n"

definition Math_pow10 :: "nat \<Rightarrow> js_number" where
  \<comment> \<open>\<open>Math.pow(10, decimals)\<close> for a count of decimals; exact up to \<open>10\<^sup>2\<^sup>2\<close>\<close>
  "Math_pow10 decimals = round_to_double (10 ^ decimals)"

subsection \<open>Decimal digits\<close>

definition digit_char :: "nat \<Rightarrow> char" where
  "digit_char d = char_of (48 + d)"

definition digit_value :: "char \<Rightarrow> nat" where
  "digit_value c = (of_char c :: nat) - 48"

fun string_of_nat :: "nat \<Rightarrow> string" where
  "string_of_nat n =
     (if n < 10 then [digit_char n] else string_of_nat (n div 10) @ [digit_char (n mod 10)])"

definition string_of_int :: "int \<Rightarrow> string" where
  "string_of_int i = (if i < 0 then CHR ''-'' # string_of_nat (nat (- i)) else string_of_nat (nat i))"

definition digits_value :: "string \<Rightarrow> nat" where
  "digits_value ds = foldl (\<lambda>n c. 10 * n + digit_value c) 0 ds"

definition radix_value :: "nat \<Rightarrow> string \<Rightarrow> nat" where
  "radix_value b ds = foldl (\<lambda>n c. b * n + hex_value c) 0 ds"

subsection \<open>Functions supplied by the platform\<close>

record log_entry =
  address :: string
  topics :: "string list"
  data :: string

record platform =
  number_toString_other :: "rat \<Rightarrow> string"
    \<comment> \<open>how the host prints a finite number that is not an integer below \<open>2\<^sup>5\<^sup>3\<close> in
        magnitude: the shortest digits that read back as the number, so a fraction, an
        integer from \<open>2\<^sup>5\<^sup>3\<close> on with zeros in place of the digits it does not need, or
        exponent notation from \<open>10\<^sup>2\<^sup>1\<close> on\<close>
  createHmac_sha256_hex :: "string \<Rightarrow> string \<Rightarrow> string"
    \<comment> \<open>\<open>crypto.createHmac('sha256', secret).update(payload, 'utf8').digest('hex')\<close>,
        by secret and payload\<close>
  parseLog :: "log_entry \<Rightarrow> (string \<times> int option) option"
    \<comment> \<open>the token messenger interface's \<open>parseLog\<close>: the event's name and its \<open>nonce\<close>
        argument; \<open>None\<close> when it returns null or throws\<close>
  messageSentTopic :: string
    \<comment> \<open>the topic hash of the message transmitter's \<open>MessageSent\<close> event\<close>
  decodeMessageSent :: "log_entry \<Rightarrow> js_error + string"
    \<comment> \<open>\<open>decodeEventLog('MessageSent', data, topics).message\<close>\<close>
  keccak256 :: "string \<Rightarrow> js_error + string"

definition Number_toString :: "platform \<Rightarrow> js_number \<Rightarrow> string" where
  \<comment> \<open>\<open>Number.prototype.toString\<close>: the shortest digits that read back as the number.
      Every integer below \<open>2\<^sup>5\<^sup>3\<close> in magnitude is a number of its own, so there these
      are its decimal digits; the other cases are the platform's\<close>
  "Number_toString P n =
     (case n of
        NaN \<Rightarrow> ''NaN''
      | PosInfinity \<Rightarrow> ''Infinity''
      | NegInfinity \<Rightarrow> ''-Infinity''
      | Finite x \<Rightarrow>
          if x = of_int \<lfloor>x\<rfloor> \<and> \<bar>x\<bar> < 2 ^ 53 then string_of_int \<lfloor>x\<rfloor>
          else number_toString_other P x)"

definition split_sign :: "string \<Rightarrow> bool \<times> string" where
  \<comment> \<open>an optional sign: whether it is a minus, and what follows it\<close>
  "split_sign s =
     (case s of
        [] \<Rightarrow> (False, [])
      | c # cs \<Rightarrow> if c = CHR ''-'' then (True, cs) else if c = CHR ''+'' then (False, cs) else (False, s))"

definition parse_exponent :: "string \<Rightarrow> int" where
  \<comment> \<open>an exponent part \<open>e\<close> or \<open>E\<close>, an optional sign, digits; 0 when there is none\<close>
  "parse_exponent s =
     (case s of
        [] \<Rightarrow> 0
      | c # cs \<Rightarrow>
          if c = CHR ''e'' \<or> c = CHR ''E'' then
            (let ds = takeWhile is_digit (snd (split_sign cs))
             in if ds = [] then 0
                else if fst (split_sign cs) then - int (digits_value ds) else int (digits_value ds))
          else 0)"

definition parseFloat :: "string \<Rightarrow> js_number" where
  \<comment> \<open>\<open>parseFloat\<close>: leading white space is skipped, the longest prefix that is a decimal
      literal is read, and its value is rounded to a number; NaN when no prefix is one\<close>
  "parseFloat input =
     (let s = snd (split_sign (dropWhile is_space input));
          negative = fst (split_sign (dropWhile is_space input))
      in if take 8 s = ''Infinity'' then (if negative then NegInfinity else PosInfinity)
         else
           let ip = takeWhile is_digit s;
               r1 = dropWhile is_digit s;
               dot = (r1 \<noteq> [] \<and> hd r1 = CHR ''.'');
               fp = (if dot then takeWhile is_digit (tl r1) else []);
               r2 = (if dot then dropWhile is_digit (tl r1) else r1)
           in if ip = [] \<and> fp = [] then NaN
              else
                let mv = of_nat (digits_value (ip @ fp)) * pow10 (parse_exponent r2 - int (length fp))
                in round_to_double (if negative then - mv else mv))"

section \<open>Amount utilities\<close>

definition STABLECOIN_DECIMALS :: nat where
  "STABLECOIN_DECIMALS = 6"

datatype amount_arg = AmountString string | AmountNumber js_number

definition toRawAmount :: "platform \<Rightarrow> amount_arg \<Rightarrow> nat \<Rightarrow> js_error + string" where
  "toRawAmount P amount decimals =
     (let numAmount = (case amount of AmountString s \<Rightarrow> parseFloat s | AmountNumber n \<Rightarrow> n)
      in if numAmount = NaN then
           Inl (Error (''Invalid amount: ''
                       @ (case amount of AmountString s \<Rightarrow> s | AmountNumber n \<Rightarrow> Number_toString P n)))
         else
           let multiplier = Math_pow10 decimals;
               rawAmount = Math_round (js_times numAmount multiplier)
           in Inr (Number_toString P rawAmount))"

datatype raw_arg = RawString string | RawNumber js_number | RawBigInt int

definition NumberToBigInt :: "js_number \<Rightarrow> js_error + int" where
  \<comment> \<open>\<open>BigInt(n)\<close> of a number: only an integer converts\<close>
  "NumberToBigInt n =
     (case n of
        Finite x \<Rightarrow>
          if x = of_int \<lfloor>x\<rfloor> then Inr \<lfloor>x\<rfloor>
          else Inl (RangeError ''The number cannot be converted to a BigInt because it is not an integer'')
      | _ \<Rightarrow> Inl (RangeError ''The number cannot be converted to a BigInt because it is not an integer''))"

definition StringToBigInt :: "string \<Rightarrow> js_error + int" where
  \<comment> \<open>\<open>BigInt(s)\<close> of a string: white space around it is dropped; the empty string is 0;
      decimal digits may carry a sign; \<open>0x\<close>, \<open>0o\<close> and \<open>0b\<close> literals may not\<close>
  "StringToBigInt input =
     (let s = trim input; body = snd (split_sign s)
      in if s = [] then Inr 0
         else if (take 2 s = ''0x'' \<or> take 2 s = ''0X'') \<and> drop 2 s \<noteq> [] \<and> list_all is_hex (drop 2 s)
           then Inr (int (radix_value 16 (drop 2 s)))
         else if (take 2 s = ''0o'' \<or> take 2 s = ''0O'') \<and> drop 2 s \<noteq> []
                 \<and> list_all (char_in CHR ''0'' CHR ''7'') (drop 2 s)
           then Inr (int (radix_value 8 (drop 2 s)))
         else if (take 2 s = ''0b'' \<or> take 2 s = ''0B'') \<and> drop 2 s \<noteq> []
                 \<and> list_all (char_in CHR ''0'' CHR ''1'') (drop 2 s)
           then Inr (int (radix_value 2 (drop 2 s)))
         else if body \<noteq> [] \<and> list_all is_digit body
           then Inr (if fst (split_sign s) then - int (digits_value body) else int (digits_value body))
         else Inl (SyntaxError (''Cannot convert '' @ input @ '' to a BigInt'')))"

definition bigint_div :: "int \<Rightarrow> int \<Rightarrow> int" where
  \<comment> \<open>BigInt division truncates toward zero\<close>
  "bigint_div a b = sgn a * sgn b * (\<bar>a\<bar> div \<bar>b\<bar>)"

definition bigint_mod :: "int \<Rightarrow> int \<Rightarrow> int" where
  \<comment> \<open>the remainder has the sign of the dividend\<close>
  "bigint_mod a b = sgn a * (\<bar>a\<bar> mod \<bar>b\<bar>)"

definition strip_trailing_zeros :: "string \<Rightarrow> string" where
  \<comment> \<open>\<open>s.replace(/0+$/, '')\<close>\<close>
  "strip_trailing_zeros s = rev (dropWhile (\<lambda>c. c = CHR ''0'') (rev s))"

definition fromRawAmount :: "raw_arg \<Rightarrow> nat \<Rightarrow> js_error + string" where
  "fromRawAmount rawAmount decimals =
     (case (case rawAmount of
              RawBigInt b \<Rightarrow> Inr b
            | RawString s \<Rightarrow> StringToBigInt s
            | RawNumber n \<Rightarrow> NumberToBigInt (Math_round n)) of
        Inl e \<Rightarrow> Inl e
      | Inr amount \<Rightarrow>
          (case NumberToBigInt (Math_pow10 decimals) of
             Inl e \<Rightarrow> Inl e
           | Inr divisor \<Rightarrow>
               let wholePart = bigint_div amount divisor;
                   fractionalPart = bigint_mod amount divisor
               in if fractionalPart = 0 then Inr (string_of_int wholePart)
                  else
                    let fractionalStr = padStart decimals ''0'' (string_of_int fractionalPart);
                        trimmedFractional = strip_trailing_zeros fractionalStr
                    in Inr (string_of_int wholePart @ ''.'' @ trimmedFractional)))"

section \<open>The outside world\<close>

text \<open>
  HTTP requests, pauses and chain interactions are effects. The \<open>world\<close> records the
  effects a call has issued, in order; the \<open>environment\<close> says how the outside answers
  each of them. Every effectful function takes the world and returns it updated, next to
  its result or the error it throws.
\<close>

datatype http_outcome =
    Resolved string "string option"
      \<comment> \<open>a success response: \<open>response.data.status\<close> and \<open>response.data.attestation\<close>\<close>
  | AxiosRejected "nat option" string
      \<comment> \<open>the HTTP client's error: \<open>error.response?.status\<close> and \<open>error.message\<close>\<close>
  | Rejected js_error
      \<comment> \<open>any other thrown value\<close>

record receipt =
  hash :: string
  receiptStatus :: nat
  logs :: "log_entry list"

datatype contract_method =
    DepositForBurn string nat string string
      \<comment> \<open>amount, destination domain, mint recipient, burn token\<close>
  | DepositForBurnWithCaller string nat string string string
      \<comment> \<open>the same, and the destination caller\<close>
  | ReceiveMessage string string
      \<comment> \<open>message bytes, attestation\<close>

datatype rpc_call =
    SendTransaction string string contract_method
      \<comment> \<open>network, contract address, method called with the signing wallet\<close>
  | WaitTransaction string
      \<comment> \<open>\<open>tx.wait()\<close>, by transaction hash\<close>

record environment =
  http :: "nat \<Rightarrow> string \<Rightarrow> http_outcome"
    \<comment> \<open>the outcome of a GET, by the number of requests issued before it and its URL\<close>
  sendTransaction :: "string \<Rightarrow> string \<Rightarrow> contract_method \<Rightarrow> js_error + string"
    \<comment> \<open>submitting a contract call: the transaction's hash, or the provider's error\<close>
  waitTransaction :: "string \<Rightarrow> js_error + receipt"

record world =
  requests :: "string list"
  sleeps :: "int list"
  rpcCalls :: "rpc_call list"

definition initial_world :: world where
  "initial_world = \<lparr>requests = [], sleeps = [], rpcCalls = []\<rparr>"

section \<open>Attestation utilities\<close>

record AttestationResponse =
  status :: string
  attestation :: "string option"
  message :: "string option"

definition fetchAttestation ::
  "environment \<Rightarrow> string \<Rightarrow> bool \<Rightarrow> world \<Rightarrow> (js_error + AttestationResponse) \<times> world" where
  "fetchAttestation env messageHash testnet w =
     (let baseUrl = (if testnet then ATTESTATION_SERVICE_URLS_testnet
                     else ATTESTATION_SERVICE_URLS_mainnet);
          url = baseUrl @ ''/'' @ messageHash;
          w' = w\<lparr>requests := requests w @ [url]\<rparr>
      in case http env (length (requests w)) url of
           Resolved st att \<Rightarrow> (Inr \<lparr>status = st, attestation = att, message = None\<rparr>, w')
         | AxiosRejected code msg \<Rightarrow>
             if code = Some 404 then
               (Inr \<lparr>status = ''pending'', attestation = None,
                     message = Some ''Attestation not yet available''\<rparr>, w')
             else (Inl (Error (''Attestation fetch failed: '' @ msg)), w')
         | Rejected e \<Rightarrow> (Inl e, w'))"

definition sleep :: "int \<Rightarrow> world \<Rightarrow> world" where
  "sleep ms w = w\<lparr>sleeps := sleeps w @ [ms]\<rparr>"

definition truthy :: "string option \<Rightarrow> bool" where
  \<comment> \<open>an optional string in a condition: defined and not empty\<close>
  "truthy v = (case v of None \<Rightarrow> False | Some s \<Rightarrow> s \<noteq> [])"

function waitLoop ::
  "environment \<Rightarrow> string \<Rightarrow> bool \<Rightarrow> int \<Rightarrow> int \<Rightarrow> nat \<Rightarrow> world \<Rightarrow> (js_error + string) \<times> world" where
  "waitLoop env messageHash testnet maxAttempts intervalMs attempts w =
     (if int attempts < maxAttempts then
        (case fetchAttestation env messageHash testnet w of
           (Inl e, w') \<Rightarrow> (Inl e, w')
         | (Inr response, w') \<Rightarrow>
             if status response = ''complete'' \<and> truthy (attestation response)
             then (Inr (case attestation response of Some a \<Rightarrow> a | None \<Rightarrow> []), w')
             else waitLoop env messageHash testnet maxAttempts intervalMs (Suc attempts)
                    (if int (Suc attempts) < maxAttempts then sleep intervalMs w' else w'))
      else (Inl (Error (''Attestation not available after '' @ string_of_int maxAttempts
                        @ '' attempts'')), w))"
  by pat_completeness auto
termination
  by (relation "measure (\<lambda>(env, messageHash, testnet, maxAttempts, intervalMs, attempts, w).
                   nat (maxAttempts - int attempts))") auto

definition waitForAttestation ::
  "environment \<Rightarrow> string \<Rightarrow> bool \<Rightarrow> int \<Rightarrow> int \<Rightarrow> world \<Rightarrow> (js_error + string) \<times> world" where
  "waitForAttestation env messageHash testnet maxAttempts intervalMs w =
     waitLoop env messageHash testnet maxAttempts intervalMs 0 w"

section \<open>The CCTP client\<close>

record CctpConfig =
  sourceNetwork :: string
  destinationNetwork :: string
  sourceRpcUrl :: string
  destinationRpcUrl :: "string option"
  privateKey :: string

record CctpTransferParams =
  amount :: string
  destinationAddress :: string
  destinationCaller :: "string option"

record CctpTransferResult =
  sourceChainTxHash :: string
  nonce :: int
  messageHash :: string
  messageBytes :: string
  sourceDomain :: nat
  destinationDomain :: nat
  transferAmount :: string
  burnToken :: string
  mintRecipient :: string

record TransferStatus =
  attestationStatus :: string
  statusAttestation :: "string option"
  estimatedTime :: nat

definition createCctpClient :: "CctpConfig \<Rightarrow> js_error + CctpConfig" where
  \<comment> \<open>the constructor: it refuses an unsupported route, then builds providers and wallets,
      which issues no call\<close>
  "createCctpClient config =
     (if \<not> isRouteSupported (sourceNetwork config) (destinationNetwork config) then
        Inl (Error (''CCTP route not supported: '' @ sourceNetwork config @ '' -> ''
                    @ destinationNetwork config))
      else Inr config)"

definition getSourceDomain :: "CctpConfig \<Rightarrow> js_error + nat" where
  "getSourceDomain config =
     (case CCTP_DOMAIN_IDS (sourceNetwork config) of
        None \<Rightarrow> Inl (Error (''Source network '' @ sourceNetwork config @ '' not supported by CCTP''))
      | Some domain \<Rightarrow> Inr domain)"

definition getDestinationDomain :: "CctpConfig \<Rightarrow> js_error + nat" where
  "getDestinationDomain config =
     (case CCTP_DOMAIN_IDS (destinationNetwork config) of
        None \<Rightarrow> Inl (Error (''Destination network '' @ destinationNetwork config
                              @ '' not supported by CCTP''))
      | Some domain \<Rightarrow> Inr domain)"

definition isTestnet_client :: "CctpConfig \<Rightarrow> bool" where
  \<comment> \<open>the client's private \<open>isTestnet()\<close>: \<open>NETWORKS[sourceNetwork]?.isTestnet ?? false\<close>\<close>
  "isTestnet_client config =
     (case isTestnet_of (sourceNetwork config) of None \<Rightarrow> False | Some b \<Rightarrow> b)"

definition findMessageBytes :: "platform \<Rightarrow> CctpConfig \<Rightarrow> receipt \<Rightarrow> js_error + string" where
  "findMessageBytes P config rc =
     (if \<not> truthy (MESSAGE_TRANSMITTER_CONTRACTS (sourceNetwork config)) then
        Inl (Error ''MessageTransmitter not found'')
      else
        (case find (\<lambda>l. Some (toLowerCase (address l))
                          = map_option toLowerCase (MESSAGE_TRANSMITTER_CONTRACTS (sourceNetwork config))
                        \<and> topics l \<noteq> [] \<and> hd (topics l) = messageSentTopic P) (logs rc) of
           None \<Rightarrow> Inl (Error ''MessageSent event not found'')
         | Some l \<Rightarrow> decodeMessageSent P l))"

definition is_DepositForBurn :: "platform \<Rightarrow> log_entry \<Rightarrow> bool" where
  "is_DepositForBurn P l =
     (case parseLog P l of None \<Rightarrow> False | Some (event, n) \<Rightarrow> event = ''DepositForBurn'')"

definition burnCall :: "CctpConfig \<Rightarrow> CctpTransferParams \<Rightarrow> string \<Rightarrow> nat \<Rightarrow> string \<Rightarrow> contract_method" where
  \<comment> \<open>the burn the client submits: with the caller restriction when one is given\<close>
  "burnCall config params rawAmount dstDomain usdcAddress =
     (case destinationCaller params of
        None \<Rightarrow>
          DepositForBurn rawAmount dstDomain
            (addressToBytes32 (destinationAddress params) (destinationNetwork config)) usdcAddress
      | Some caller \<Rightarrow>
          if caller = [] then
            DepositForBurn rawAmount dstDomain
              (addressToBytes32 (destinationAddress params) (destinationNetwork config)) usdcAddress
          else
            DepositForBurnWithCaller rawAmount dstDomain
              (addressToBytes32 (destinationAddress params) (destinationNetwork config)) usdcAddress
              (addressToBytes32 caller (destinationNetwork config)))"

definition readReceipt ::
  "platform \<Rightarrow> CctpConfig \<Rightarrow> CctpTransferParams \<Rightarrow> string \<Rightarrow> nat \<Rightarrow> receipt
     \<Rightarrow> js_error + CctpTransferResult" where
  \<comment> \<open>what the client reads off the confirmed burn: the nonce, the message and its hash\<close>
  "readReceipt P config params usdcAddress dstDomain rc =
     (case find (is_DepositForBurn P) (logs rc) of
        None \<Rightarrow> Inl (Error ''DepositForBurn event not found in transaction'')
      | Some ev \<Rightarrow>
          (case findMessageBytes P config rc of
             Inl e \<Rightarrow> Inl e
           | Inr bytes \<Rightarrow>
               (case keccak256 P bytes of
                  Inl e \<Rightarrow> Inl e
                | Inr h \<Rightarrow>
                    (case getSourceDomain config of
                       Inl e \<Rightarrow> Inl e
                     | Inr srcDomain \<Rightarrow>
                         Inr \<lparr>sourceChainTxHash = hash rc,
                              nonce = (case parseLog P ev of
                                         None \<Rightarrow> 0
                                       | Some (event, v) \<Rightarrow> (case v of None \<Rightarrow> 0 | Some n \<Rightarrow> n)),
                              messageHash = h, messageBytes = bytes,
                              sourceDomain = srcDomain, destinationDomain = dstDomain,
                              transferAmount = amount params, burnToken = usdcAddress,
                              mintRecipient = destinationAddress params\<rparr>))))"

definition submitBurn ::
  "platform \<Rightarrow> environment \<Rightarrow> CctpConfig \<Rightarrow> CctpTransferParams \<Rightarrow> string \<Rightarrow> string \<Rightarrow> string
     \<Rightarrow> nat \<Rightarrow> world \<Rightarrow> (js_error + CctpTransferResult) \<times> world" where
  \<comment> \<open>the chain interaction: the burn is submitted, then its confirmation is awaited\<close>
  "submitBurn P env config params usdcAddress tokenMessengerAddress rawAmount dstDomain w =
     (let call = burnCall config params rawAmount dstDomain usdcAddress;
          w1 = w\<lparr>rpcCalls := rpcCalls w
                     @ [SendTransaction (sourceNetwork config) tokenMessengerAddress call]\<rparr>
      in case sendTransaction env (sourceNetwork config) tokenMessengerAddress call of
           Inl e \<Rightarrow> (Inl e, w1)
         | Inr tx \<Rightarrow>
             (case waitTransaction env tx of
                Inl e \<Rightarrow> (Inl e, w1\<lparr>rpcCalls := rpcCalls w1 @ [WaitTransaction tx]\<rparr>)
              | Inr rc \<Rightarrow>
                  (readReceipt P config params usdcAddress dstDomain rc,
                   w1\<lparr>rpcCalls := rpcCalls w1 @ [WaitTransaction tx]\<rparr>)))"

definition initiateTransfer ::
  "platform \<Rightarrow> environment \<Rightarrow> CctpConfig \<Rightarrow> CctpTransferParams \<Rightarrow> world
     \<Rightarrow> (js_error + CctpTransferResult) \<times> world" where
  "initiateTransfer P env config params w =
     (if \<not> validateAddress (destinationAddress params) (destinationNetwork config) then
        (Inl (Error (''Invalid destination address for '' @ destinationNetwork config)), w)
      else
        (case (USDC_CONTRACTS (sourceNetwork config),
               TOKEN_MESSENGER_CONTRACTS (sourceNetwork config)) of
           (Some usdcAddress, Some tokenMessengerAddress) \<Rightarrow>
             if usdcAddress = [] \<or> tokenMessengerAddress = [] then
               (Inl (Error (''USDC or TokenMessenger not available on '' @ sourceNetwork config)), w)
             else
               (case toRawAmount P (AmountString (amount params)) STABLECOIN_DECIMALS of
                  Inl e \<Rightarrow> (Inl e, w)
                | Inr rawAmount \<Rightarrow>
                    (case getDestinationDomain config of
                       Inl e \<Rightarrow> (Inl e, w)
                     | Inr dstDomain \<Rightarrow>
                         submitBurn P env config params usdcAddress tokenMessengerAddress
                           rawAmount dstDomain w))
         | _ \<Rightarrow>
             (Inl (Error (''USDC or TokenMessenger not available on '' @ sourceNetwork config)), w)))"

definition getAttestation ::
  "environment \<Rightarrow> CctpConfig \<Rightarrow> string \<Rightarrow> world \<Rightarrow> (js_error + AttestationResponse) \<times> world" where
  "getAttestation env config h w = fetchAttestation env h (isTestnet_client config) w"

definition getTransferStatus ::
  "environment \<Rightarrow> CctpConfig \<Rightarrow> string \<Rightarrow> world \<Rightarrow> (js_error + TransferStatus) \<times> world" where
  "getTransferStatus env config h w =
     (case getAttestation env config h w of
        (Inl e, w') \<Rightarrow> (Inl e, w')
      | (Inr result, w') \<Rightarrow>
          (Inr \<lparr>attestationStatus = status result,
                 statusAttestation = attestation result,
                 estimatedTime = (if status result = ''pending'' then 15 else 0)\<rparr>, w'))"

section \<open>Signature utilities\<close>

definition timingSafeEqual :: "string \<Rightarrow> string \<Rightarrow> js_error + bool" where
  \<comment> \<open>\<open>crypto.timingSafeEqual\<close> throws when the two buffers differ in length\<close>
  "timingSafeEqual a b =
     (if length a \<noteq> length b then Inl (RangeError ''Input buffers must have the same byte length'')
      else Inr (a = b))"

definition verifyWebhookSignature :: "platform \<Rightarrow> string \<Rightarrow> string \<Rightarrow> string \<Rightarrow> bool" where
  "verifyWebhookSignature P payload signature secret =
     (if payload = [] \<or> signature = [] \<or> secret = [] then False
      else
        let expectedSignature = createHmac_sha256_hex P secret payload
        in case timingSafeEqual (toLowerCase signature) (toLowerCase expectedSignature) of
             Inl e \<Rightarrow> False
           | Inr b \<Rightarrow> b)"

section \<open>Notions used in the statements\<close>

definition eq_ignore_case :: "string \<Rightarrow> string \<Rightarrow> bool" where
  "eq_ignore_case a b = (toLowerCase a = toLowerCase b)"

definition route_pairs :: "(string \<times> string) list" where
  \<comment> \<open>every pair of a source and one of its destinations in the route table\<close>
  "route_pairs = concat (map (\<lambda>(s, ds). map (\<lambda>d. (s, d)) ds) CCTP_ROUTES_table)"

definition same_environment :: "string \<Rightarrow> string \<Rightarrow> bool" where
  \<comment> \<open>both networks are in the registry, and both are testnets or both are mainnets\<close>
  "same_environment s d =
     (case (isTestnet_of s, isTestnet_of d) of
        (Some a, Some b) \<Rightarrow> a = b
      | _ \<Rightarrow> False)"

definition recognised_network :: "string \<Rightarrow> bool" where
  \<comment> \<open>the networks \<open>validateAddress\<close> has a branch for\<close>
  "recognised_network network =
     (network \<in> set EVM_NETWORKS
      \<or> network \<in> set [''solana'', ''solana-devnet'', ''stellar'', ''near'', ''noble'', ''hedera''])"

definition attestation_url :: "bool \<Rightarrow> string \<Rightarrow> string" where
  "attestation_url testnet h = getAttestationServiceUrl testnet @ ''/'' @ h"

definition not_ready :: "http_outcome \<Rightarrow> bool" where
  \<comment> \<open>the request was answered, by a 404 or by a response that is not a complete
      attestation\<close>
  "not_ready outcome =
     (case outcome of
        Resolved st att \<Rightarrow> st \<noteq> ''complete'' \<or> \<not> truthy att
      | AxiosRejected code msg \<Rightarrow> code = Some 404
      | Rejected e \<Rightarrow> False)"

definition ready_with :: "string \<Rightarrow> http_outcome \<Rightarrow> bool" where
  "ready_with a outcome = (outcome = Resolved ''complete'' (Some a) \<and> a \<noteq> [])"


definition decimal_amount :: "string \<Rightarrow> string \<Rightarrow> string" where
  \<comment> \<open>the amount written with integer digits \<open>ip\<close> and fractional digits \<open>fp\<close>\<close>
  "decimal_amount ip fp = (if fp = [] then ip else ip @ ''.'' @ fp)"

definition amount_value :: "string \<Rightarrow> string \<Rightarrow> rat" where
  \<comment> \<open>the exact value of \<open>decimal_amount ip fp\<close>\<close>
  "amount_value ip fp = of_nat (digits_value (ip @ fp)) / 10 ^ length fp"

definition canonical_digits :: "string \<Rightarrow> bool" where
  \<comment> \<open>decimal digits, at least one, with no leading zero but for \<open>0\<close> itself\<close>
  "canonical_digits ds = (ds \<noteq> [] \<and> list_all is_digit ds \<and> (ds = ''0'' \<or> hd ds \<noteq> CHR ''0''))"

subsection \<open>Test doubles\<close>

definition no_chain_send :: "string \<Rightarrow> string \<Rightarrow> contract_method \<Rightarrow> js_error + string" where
  "no_chain_send network contract call = Inl (Error ''no provider'')"

definition no_chain_wait :: "string \<Rightarrow> js_error + receipt" where
  "no_chain_wait tx = Inl (Error ''no provider'')"

definition http_404_twice_then_complete :: "nat \<Rightarrow> string \<Rightarrow> http_outcome" where
  "http_404_twice_then_complete i url =
     (if i < 2 then AxiosRejected (Some 404) ''Request failed with status code 404''
      else Resolved ''complete'' (Some ''0xabc''))"

definition http_always_404 :: "nat \<Rightarrow> string \<Rightarrow> http_outcome" where
  "http_always_404 i url = AxiosRejected (Some 404) ''Request failed with status code 404''"

definition http_always_500 :: "nat \<Rightarrow> string \<Rightarrow> http_outcome" where
  "http_always_500 i url = AxiosRejected (Some 500) ''Request failed with status code 500''"

definition mock_environment :: "(nat \<Rightarrow> string \<Rightarrow> http_outcome) \<Rightarrow> environment" where
  "mock_environment h = \<lparr>http = h, sendTransaction = no_chain_send, waitTransaction = no_chain_wait\<rparr>"

definition mock_platform :: platform where
  "mock_platform =
     \<lparr>number_toString_other = (\<lambda>x. ''1e+21''),
      createHmac_sha256_hex = (\<lambda>secret payload. replicate 64 CHR ''a''),
      parseLog = (\<lambda>l. None),
      messageSentTopic = ''0x00'',
      decodeMessageSent = (\<lambda>l. Inl (Error ''no event'')),
      keccak256 = (\<lambda>b. Inl (Error ''no hash''))\<rparr>"

definition avalanche_to_ethereum :: CctpConfig where
  "avalanche_to_ethereum =
     \<lparr>sourceNetwork = ''avalanche'', destinationNetwork = ''ethereum'',
      sourceRpcUrl = ''https://api.avax.network/ext/bc/C/rpc'', destinationRpcUrl = None,
      privateKey = ''0x01''\<rparr>"

section \<open>Evaluation of characters and digits\<close>

lemma digit_char_eval:
  "digit_char 0 = CHR ''0''" "digit_char 1 = CHR ''1''" "digit_char 2 = CHR ''2''"
  "digit_char 3 = CHR ''3''" "digit_char 4 = CHR ''4''" "digit_char 5 = CHR ''5''"
  "digit_char 6 = CHR ''6''" "digit_char 7 = CHR ''7''" "digit_char 8 = CHR ''8''"
  "digit_char 9 = CHR ''9''" "digit_char (Suc 0) = CHR ''1''"
  by code_simp+


section \<open>Address conversion\<close>

lemma lower_char_idem: "lower_char (lower_char c) = lower_char c"
  unfolding lower_char_def is_upper_def char_in_def
  by auto

lemma toLowerCase_idem: "toLowerCase (toLowerCase s) = toLowerCase s"
  by (simp add: toLowerCase_def lower_char_idem)

lemma concat_replicate_single: "concat (replicate n [c]) = replicate n c"
  by (induction n) auto

lemma padStart_40: "length t = 40 \<Longrightarrow> padStart 64 ''0'' t = replicate 24 CHR ''0'' @ t"
  by (simp add: padStart_def concat_replicate_single)

lemma EVM_ADDRESS_REGEX_shape:
  assumes "EVM_ADDRESS_REGEX a"
  shows "\<exists>hs. a = CHR ''0'' # CHR ''x'' # hs \<and> length hs = 40 \<and> list_all is_hex hs"
proof -
  from assms have t: "take 2 a = ''0x''" and l: "length a = 42" and h: "list_all is_hex (drop 2 a)"
    by (simp_all add: EVM_ADDRESS_REGEX_def)
  have "a = take 2 a @ drop 2 a" by simp
  with t have "a = CHR ''0'' # CHR ''x'' # drop 2 a" by simp
  moreover from l have "length (drop 2 a) = 40" by simp
  ultimately show ?thesis using h by blast
qed

lemma validateEvmAddress_iff: "validateEvmAddress a = EVM_ADDRESS_REGEX a"
  by (simp add: validateEvmAddress_def validateEvmChecksum_def)

lemma evm_canonical_form:
  assumes n: "network \<in> set EVM_NETWORKS" and v: "validateEvmAddress a"
  shows "addressToBytes32 a network = ''0x'' @ replicate 24 CHR ''0'' @ drop 2 (toLowerCase a)"
    and "bytes32ToAddress (addressToBytes32 a network) network = toLowerCase a"
proof -
  from v obtain hs where a: "a = CHR ''0'' # CHR ''x'' # hs" and l: "length hs = 40"
    using EVM_ADDRESS_REGEX_shape validateEvmAddress_iff by blast
  have low: "toLowerCase a = CHR ''0'' # CHR ''x'' # toLowerCase hs"
    by (simp add: a toLowerCase_def lower_char_def is_upper_def char_in_def)
  have l': "length (toLowerCase hs) = 40" using l by (simp add: toLowerCase_def)
  have enc: "addressToBytes32 a network = CHR ''0'' # CHR ''x'' # replicate 24 CHR ''0'' @ toLowerCase hs"
    using n by (simp add: addressToBytes32_def low padStart_40 [OF l'] del: replicate.simps)
  show "addressToBytes32 a network = ''0x'' @ replicate 24 CHR ''0'' @ drop 2 (toLowerCase a)"
    by (simp add: enc low del: replicate.simps)
  show "bytes32ToAddress (addressToBytes32 a network) network = toLowerCase a"
    using n l' by (simp add: bytes32ToAddress_def enc low slice_last_def del: replicate.simps)
qed

text \<open>
  Claim C3. On an EVM network, a valid 20-byte address (\<open>0x\<close> and 40 hex digits) is
  converted to its 32-byte form by left-padding its 20 bytes with zeros (24 zero digits
  before its 40 digits, in lower case), and converting that form back gives the address
  again, up to the case of its letters.
\<close>

theorem C3_evm_address_roundtrip:
  "network \<in> set EVM_NETWORKS \<Longrightarrow> validateEvmAddress a \<Longrightarrow>
     addressToBytes32 a network = ''0x'' @ replicate 24 CHR ''0'' @ drop 2 (toLowerCase a)
     \<and> eq_ignore_case (bytes32ToAddress (addressToBytes32 a network) network) a"
proof -
  assume n: "network \<in> set EVM_NETWORKS" and v: "validateEvmAddress a"
  have rt: "bytes32ToAddress (addressToBytes32 a network) network = toLowerCase a"
    using n v by (rule evm_canonical_form(2))
  have "eq_ignore_case (bytes32ToAddress (addressToBytes32 a network) network) a"
    unfolding eq_ignore_case_def rt by (rule toLowerCase_idem)
  with evm_canonical_form(1) [OF n v] show ?thesis by (rule conjI)
qed

theorem C3_evm_address_roundtrip_witness:
  "''base'' \<in> set EVM_NETWORKS
   \<and> validateEvmAddress ''0xA0b86991c6218b36c1d19D4a2e9Eb0cE3606eB48''
   \<and> addressToBytes32 ''0xA0b86991c6218b36c1d19D4a2e9Eb0cE3606eB48'' ''base''
       = ''0x000000000000000000000000a0b86991c6218b36c1d19d4a2e9eb0ce3606eb48''
   \<and> eq_ignore_case
        (bytes32ToAddress (addressToBytes32 ''0xA0b86991c6218b36c1d19D4a2e9Eb0cE3606eB48'' ''base'') ''base'')
        ''0xA0b86991c6218b36c1d19D4a2e9Eb0cE3606eB48''"
proof -
  have n: "''base'' \<in> set EVM_NETWORKS" by (simp add: EVM_NETWORKS_def)
  have v: "validateEvmAddress ''0xA0b86991c6218b36c1d19D4a2e9Eb0cE3606eB48''"
    by (simp add: validateEvmAddress_iff EVM_ADDRESS_REGEX_def is_hex_def is_digit_def char_in_def)
  have e: "''0x'' @ replicate 24 CHR ''0'' @ drop 2 (toLowerCase ''0xA0b86991c6218b36c1d19D4a2e9Eb0cE3606eB48'')
             = ''0x000000000000000000000000a0b86991c6218b36c1d19d4a2e9eb0ce3606eb48''"
    by code_simp
  from n v C3_evm_address_roundtrip [OF n v] show ?thesis unfolding e by blast
qed

section \<open>Routes\<close>

lemma route_in_pairs:
  assumes "isRouteSupported s d"
  shows "(s, d) \<in> set route_pairs"
proof -
  from assms obtain routes where r: "CCTP_ROUTES s = Some routes" and d: "d \<in> set routes"
    by (auto simp: isRouteSupported_def split: option.splits)
  from r have "(s, routes) \<in> set CCTP_ROUTES_table"
    unfolding CCTP_ROUTES_def by (rule map_of_SomeD)
  with d show ?thesis
    unfolding route_pairs_def set_concat by (auto intro!: bexI[of _ "(s, routes)"])
qed

lemma isTestnet_table:
  "map (\<lambda>(k, c). (k, isTestnet c)) NETWORKS_table =
     [(''ethereum'', False), (''polygon'', False), (''arbitrum'', False), (''optimism'', False),
      (''base'', False), (''avalanche'', False), (''solana'', False), (''stellar'', False),
      (''near'', False), (''noble'', False), (''hedera'', False), (''sepolia'', True),
      (''mumbai'', True), (''arbitrum-sepolia'', True), (''optimism-sepolia'', True),
      (''base-sepolia'', True), (''fuji'', True), (''solana-devnet'', True)]"
  by (simp add: NETWORKS_table_def)

lemma isTestnet_of_eq:
  "isTestnet_of n = map_of (map (\<lambda>(k, c). (k, isTestnet c)) NETWORKS_table) n"
  by (simp add: isTestnet_of_def NETWORKS_def map_of_map)

lemma isTestnet_of_routes:
  "isTestnet_of ''ethereum'' = Some False"
  "isTestnet_of ''avalanche'' = Some False"
  "isTestnet_of ''optimism'' = Some False"
  "isTestnet_of ''arbitrum'' = Some False"
  "isTestnet_of ''noble'' = Some False"
  "isTestnet_of ''solana'' = Some False"
  "isTestnet_of ''base'' = Some False"
  "isTestnet_of ''polygon'' = Some False"
  "isTestnet_of ''sepolia'' = Some True"
  "isTestnet_of ''fuji'' = Some True"
  "isTestnet_of ''optimism-sepolia'' = Some True"
  "isTestnet_of ''arbitrum-sepolia'' = Some True"
  "isTestnet_of ''base-sepolia'' = Some True"
  "isTestnet_of ''mumbai'' = Some True"
  "isTestnet_of ''solana-devnet'' = Some True"
  by (simp_all add: isTestnet_of_eq isTestnet_table)

lemma route_pairs_sound:
  "list_all (\<lambda>(s, d). s \<noteq> d \<and> same_environment s d) route_pairs"
  by (simp add: route_pairs_def CCTP_ROUTES_table_def same_environment_def isTestnet_of_routes)

lemma route_ethereum_avalanche: "isRouteSupported ''ethereum'' ''avalanche''"
  by (simp add: isRouteSupported_def CCTP_ROUTES_def CCTP_ROUTES_table_def)

lemma no_route_ethereum_ethereum: "\<not> isRouteSupported ''ethereum'' ''ethereum''"
  by (simp add: isRouteSupported_def CCTP_ROUTES_def CCTP_ROUTES_table_def)

text \<open>
  Claim C6. The route relation admits no self-route and never crosses environments:
  whenever \<open>isRouteSupported s d\<close> holds, \<open>s\<close> and \<open>d\<close> differ, both are in the network
  registry, and both are testnets or both are mainnets. In particular there is no route
  from ethereum to ethereum, and there is one from ethereum to avalanche.
\<close>

theorem C6_routes_stay_in_environment:
  "(isRouteSupported s d \<longrightarrow> s \<noteq> d \<and> same_environment s d)
   \<and> \<not> isRouteSupported ''ethereum'' ''ethereum''
   \<and> isRouteSupported ''ethereum'' ''avalanche''"
  using route_in_pairs [of s d] route_pairs_sound route_ethereum_avalanche no_route_ethereum_ethereum
  by (auto simp: list_all_iff)

theorem C6_routes_stay_in_environment_witness:
  "isRouteSupported ''ethereum'' ''avalanche''
   \<and> ''ethereum'' \<noteq> ''avalanche'' \<and> same_environment ''ethereum'' ''avalanche''"
  using C6_routes_stay_in_environment [of "''ethereum''" "''avalanche''"] by blast

section \<open>Polling for an attestation\<close>

lemma fetch_requests:
  "requests (snd (fetchAttestation env h t w)) = requests w @ [attestation_url t h]"
  by (cases t)
     (simp_all add: fetchAttestation_def attestation_url_def getAttestationServiceUrl_def Let_def
           split: http_outcome.splits)

lemma fetch_sleeps: "sleeps (snd (fetchAttestation env h t w)) = sleeps w"
  by (simp add: fetchAttestation_def Let_def split: http_outcome.splits)

lemma fetch_rpc: "rpcCalls (snd (fetchAttestation env h t w)) = rpcCalls w"
  by (simp add: fetchAttestation_def Let_def split: http_outcome.splits)

lemma fetch_world:
  "snd (fetchAttestation env h t w) = w\<lparr>requests := requests w @ [attestation_url t h]\<rparr>"
  by (cases t)
     (simp_all add: fetchAttestation_def attestation_url_def getAttestationServiceUrl_def Let_def
           split: http_outcome.splits)

lemma fetch_not_ready:
  assumes "not_ready (http env (length (requests w)) (attestation_url t h))"
  shows "\<exists>r. fst (fetchAttestation env h t w) = Inr r \<and> \<not> (status r = ''complete'' \<and> truthy (attestation r))"
  using assms
  by (cases t)
     (auto simp: fetchAttestation_def attestation_url_def getAttestationServiceUrl_def Let_def
        not_ready_def truthy_def split: http_outcome.splits)

lemma fetch_ready:
  assumes "ready_with a (http env (length (requests w)) (attestation_url t h))"
  shows "fst (fetchAttestation env h t w) = Inr \<lparr>status = ''complete'', attestation = Some a, message = None\<rparr>"
  using assms
  by (cases t)
     (simp_all add: fetchAttestation_def attestation_url_def getAttestationServiceUrl_def Let_def
        ready_with_def)

declare waitLoop.simps [simp del]

lemma waitLoop_success:
  assumes "\<forall>i<k. not_ready (http env (length (requests w) + i) (attestation_url t h))"
    and "ready_with a (http env (length (requests w) + k) (attestation_url t h))"
    and "int (j + k) < maxAttempts"
  shows "waitLoop env h t maxAttempts ms j w =
           (Inr a, w\<lparr>requests := requests w @ replicate (Suc k) (attestation_url t h),
                      sleeps := sleeps w @ replicate k ms\<rparr>)"
  using assms
proof (induction k arbitrary: j w)
  case 0
  then have r: "ready_with a (http env (length (requests w)) (attestation_url t h))" by simp
  have a: "a \<noteq> []" using r by (simp add: ready_with_def)
  from 0 have lt: "int j < maxAttempts" by simp
  obtain x w' where f: "fetchAttestation env h t w = (x, w')" by (cases "fetchAttestation env h t w")
  from fetch_ready [OF r] f have x: "x = Inr \<lparr>status = ''complete'', attestation = Some a, message = None\<rparr>" by simp
  from fetch_world [of env h t w] f have w': "w' = w\<lparr>requests := requests w @ [attestation_url t h]\<rparr>" by simp
  show ?case
    by (subst waitLoop.simps) (simp add: lt f x w' a truthy_def)
next
  case (Suc k)
  from Suc.prems(1) have n0: "not_ready (http env (length (requests w)) (attestation_url t h))"
    by (metis add.right_neutral zero_less_Suc)
  from Suc.prems(3) have lt: "int j < maxAttempts" and lt': "int (Suc j) < maxAttempts" by simp_all
  obtain x w' where f: "fetchAttestation env h t w = (x, w')" by (cases "fetchAttestation env h t w")
  from fetch_not_ready [OF n0] f obtain r where x: "x = Inr r"
    and nr: "\<not> (status r = ''complete'' \<and> truthy (attestation r))" by auto
  from fetch_world [of env h t w] f have w': "w' = w\<lparr>requests := requests w @ [attestation_url t h]\<rparr>" by simp
  let ?w'' = "sleep ms w'"
  have len: "length (requests ?w'') = Suc (length (requests w))" by (simp add: sleep_def w')
  have p1: "\<forall>i<k. not_ready (http env (length (requests ?w'') + i) (attestation_url t h))"
    using Suc.prems(1) by (simp add: len) (metis Suc_less_eq add_Suc_right)
  have p2: "ready_with a (http env (length (requests ?w'') + k) (attestation_url t h))"
    using Suc.prems(2) by (simp add: len)
  have p3: "int (Suc j + k) < maxAttempts" using Suc.prems(3) by simp
  have step: "waitLoop env h t maxAttempts ms j w = waitLoop env h t maxAttempts ms (Suc j) ?w''"
    using nr lt lt' by (subst waitLoop.simps) (auto simp: f x simp del: of_nat_Suc)
  show ?case
    unfolding step Suc.IH [OF p1 p2 p3]
    by (simp add: sleep_def w' replicate_append_same)
qed

lemma waitLoop_timeout:
  assumes "\<forall>i<k. not_ready (http env (length (requests w) + i) (attestation_url t h))"
    and "int (j + k) = maxAttempts"
  shows "waitLoop env h t maxAttempts ms j w =
           (Inl (Error (''Attestation not available after '' @ string_of_int maxAttempts @ '' attempts'')),
            w\<lparr>requests := requests w @ replicate k (attestation_url t h),
              sleeps := sleeps w @ replicate (k - 1) ms\<rparr>)"
  using assms
proof (induction k arbitrary: j w)
  case 0
  then have "\<not> int j < maxAttempts" by simp
  then show ?case by (subst waitLoop.simps) simp
next
  case (Suc k)
  from Suc.prems(1) have n0: "not_ready (http env (length (requests w)) (attestation_url t h))"
    by (metis add.right_neutral zero_less_Suc)
  from Suc.prems(2) have lt: "int j < maxAttempts" by simp
  from Suc.prems(2) have lt': "int (Suc j) < maxAttempts \<longleftrightarrow> 0 < k" by auto
  obtain x w' where f: "fetchAttestation env h t w = (x, w')" by (cases "fetchAttestation env h t w")
  from fetch_not_ready [OF n0] f obtain r where x: "x = Inr r"
    and nr: "\<not> (status r = ''complete'' \<and> truthy (attestation r))" by auto
  from fetch_world [of env h t w] f have w': "w' = w\<lparr>requests := requests w @ [attestation_url t h]\<rparr>" by simp
  let ?w'' = "if 0 < k then sleep ms w' else w'"
  have len: "length (requests ?w'') = Suc (length (requests w))" by (simp add: sleep_def w')
  have p1: "\<forall>i<k. not_ready (http env (length (requests ?w'') + i) (attestation_url t h))"
    using Suc.prems(1) unfolding len by (metis Suc_less_eq add_Suc_right add_Suc)
  have p2: "int (Suc j + k) = maxAttempts" using Suc.prems(2) by simp
  have step: "waitLoop env h t maxAttempts ms j w = waitLoop env h t maxAttempts ms (Suc j) ?w''"
    using nr lt lt' by (subst waitLoop.simps) (auto simp: f x simp del: of_nat_Suc)
  show ?case
    unfolding step Suc.IH [OF p1 p2]
    by (cases k) (simp_all add: sleep_def w' replicate_append_same)
qed


text \<open>
  A request that fails with anything but a 404 ends the wait at once: the loop does not
  catch the error of \<open>fetchAttestation\<close>.
\<close>

lemma fetch_rejected:
  assumes "http env (length (requests w)) (attestation_url t h) = AxiosRejected code m"
    and "code \<noteq> Some 404"
  shows "fst (fetchAttestation env h t w) = Inl (Error (''Attestation fetch failed: '' @ m))"
  using assms
  by (cases t)
     (simp_all add: fetchAttestation_def attestation_url_def getAttestationServiceUrl_def Let_def)

lemma waitLoop_fetch_failure:
  assumes "\<forall>i<k. not_ready (http env (length (requests w) + i) (attestation_url t h))"
    and "http env (length (requests w) + k) (attestation_url t h) = AxiosRejected code m"
    and "code \<noteq> Some 404"
    and "int (j + k) < maxAttempts"
  shows "waitLoop env h t maxAttempts ms j w =
           (Inl (Error (''Attestation fetch failed: '' @ m)),
            w\<lparr>requests := requests w @ replicate (Suc k) (attestation_url t h),
              sleeps := sleeps w @ replicate k ms\<rparr>)"
  using assms
proof (induction k arbitrary: j w)
  case 0
  then have r: "http env (length (requests w)) (attestation_url t h) = AxiosRejected code m" by simp
  from 0 have lt: "int j < maxAttempts" by simp
  obtain x w' where f: "fetchAttestation env h t w = (x, w')" by (cases "fetchAttestation env h t w")
  from fetch_rejected [OF r "0.prems"(3)] f have x: "x = Inl (Error (''Attestation fetch failed: '' @ m))" by simp
  from fetch_world [of env h t w] f have w': "w' = w\<lparr>requests := requests w @ [attestation_url t h]\<rparr>" by simp
  show ?case
    by (subst waitLoop.simps) (simp add: lt f x w')
next
  case (Suc k)
  from Suc.prems(1) have n0: "not_ready (http env (length (requests w)) (attestation_url t h))"
    by (metis add.right_neutral zero_less_Suc)
  from Suc.prems(4) have lt: "int j < maxAttempts" and lt': "int (Suc j) < maxAttempts" by simp_all
  obtain x w' where f: "fetchAttestation env h t w = (x, w')" by (cases "fetchAttestation env h t w")
  from fetch_not_ready [OF n0] f obtain r where x: "x = Inr r"
    and nr: "\<not> (status r = ''complete'' \<and> truthy (attestation r))" by auto
  from fetch_world [of env h t w] f have w': "w' = w\<lparr>requests := requests w @ [attestation_url t h]\<rparr>" by simp
  let ?w'' = "sleep ms w'"
  have len: "length (requests ?w'') = Suc (length (requests w))" by (simp add: sleep_def w')
  have p1: "\<forall>i<k. not_ready (http env (length (requests ?w'') + i) (attestation_url t h))"
    using Suc.prems(1) by (simp add: len) (metis Suc_less_eq add_Suc_right)
  have p2: "http env (length (requests ?w'') + k) (attestation_url t h) = AxiosRejected code m"
    using Suc.prems(2) by (simp add: len)
  have p3: "int (Suc j + k) < maxAttempts" using Suc.prems(4) by simp
  have step: "waitLoop env h t maxAttempts ms j w = waitLoop env h t maxAttempts ms (Suc j) ?w''"
    using nr lt lt' by (subst waitLoop.simps) (auto simp: f x simp del: of_nat_Suc)
  show ?case
    unfolding step Suc.IH [OF p1 p2 Suc.prems(3) p3]
    by (simp add: sleep_def w' replicate_append_same)
qed

text \<open>
  Claim C2. \<open>waitForAttestation\<close> issues one request per attempt. If the first \<open>k\<close>
  requests are answered without a complete attestation (a 404, or a response that is not
  complete or carries no attestation), the next one is complete with attestation \<open>a\<close>,
  and \<open>k < maxAttempts\<close>, it returns \<open>a\<close> after exactly \<open>k + 1\<close> requests. If none of the
  first \<open>maxAttempts\<close> requests is answered with a complete attestation (each is answered
  by a 404 or by an incomplete response), it throws the error "Attestation not available
  after \<open>maxAttempts\<close> attempts" after exactly \<open>maxAttempts\<close> requests. It pauses
  between two attempts only.
\<close>

theorem C2_waitForAttestation_attempts:
  "((\<forall>i<k. not_ready (http env i (attestation_url t h)))
     \<and> ready_with a (http env k (attestation_url t h)) \<and> int k < maxAttempts
    \<longrightarrow> waitForAttestation env h t maxAttempts ms initial_world =
          (Inr a, \<lparr>requests = replicate (Suc k) (attestation_url t h),
                   sleeps = replicate k ms, rpcCalls = []\<rparr>))
   \<and> ((\<forall>i<nat maxAttempts. not_ready (http env i (attestation_url t h))) \<and> 0 \<le> maxAttempts
    \<longrightarrow> waitForAttestation env h t maxAttempts ms initial_world =
          (Inl (Error (''Attestation not available after '' @ string_of_int maxAttempts
                       @ '' attempts'')),
           \<lparr>requests = replicate (nat maxAttempts) (attestation_url t h),
            sleeps = replicate (nat maxAttempts - 1) ms, rpcCalls = []\<rparr>))"
proof (intro conjI impI)
  assume a: "(\<forall>i<k. not_ready (http env i (attestation_url t h)))
     \<and> ready_with a (http env k (attestation_url t h)) \<and> int k < maxAttempts"
  show "waitForAttestation env h t maxAttempts ms initial_world =
          (Inr a, \<lparr>requests = replicate (Suc k) (attestation_url t h),
                   sleeps = replicate k ms, rpcCalls = []\<rparr>)"
    unfolding waitForAttestation_def
    using waitLoop_success [of k env initial_world t h a 0 maxAttempts ms] a
    by (simp add: initial_world_def)
next
  assume a: "(\<forall>i<nat maxAttempts. not_ready (http env i (attestation_url t h))) \<and> 0 \<le> maxAttempts"
  show "waitForAttestation env h t maxAttempts ms initial_world =
          (Inl (Error (''Attestation not available after '' @ string_of_int maxAttempts
                       @ '' attempts'')),
           \<lparr>requests = replicate (nat maxAttempts) (attestation_url t h),
            sleeps = replicate (nat maxAttempts - 1) ms, rpcCalls = []\<rparr>)"
    unfolding waitForAttestation_def
    using waitLoop_timeout [of "nat maxAttempts" env initial_world t h 0 maxAttempts ms] a
    by (simp add: initial_world_def)
qed


lemma url_mainnet: "attestation_url False h = ''https://iris-api.circle.com/attestations/'' @ h"
  by (simp add: attestation_url_def getAttestationServiceUrl_def ATTESTATION_SERVICE_URLS_mainnet_def)

theorem C2_waitForAttestation_attempts_witness:
  "waitForAttestation (mock_environment http_404_twice_then_complete) ''0x01'' False 5 10 initial_world
     = (Inr ''0xabc'',
        \<lparr>requests = replicate 3 (attestation_url False ''0x01''), sleeps = [10, 10], rpcCalls = []\<rparr>)
   \<and> waitForAttestation (mock_environment http_always_404) ''0x01'' False 2 10 initial_world
     = (Inl (Error ''Attestation not available after 2 attempts''),
        \<lparr>requests = replicate 2 (attestation_url False ''0x01''), sleeps = [10], rpcCalls = []\<rparr>)"
proof -
  let ?u = "attestation_url False ''0x01''"
  have a1: "\<forall>i<2. not_ready (http (mock_environment http_404_twice_then_complete) i ?u)"
    by (simp add: mock_environment_def http_404_twice_then_complete_def not_ready_def)
  have a2: "ready_with ''0xabc'' (http (mock_environment http_404_twice_then_complete) 2 ?u)"
    by (simp add: mock_environment_def http_404_twice_then_complete_def ready_with_def)
  have b1: "\<forall>i<nat 2. not_ready (http (mock_environment http_always_404) i ?u)"
    by (simp add: mock_environment_def http_always_404_def not_ready_def)
  have s: "string_of_int 2 = ''2''"
    by (simp add: string_of_int_def digit_char_eval)
  have r3: "replicate (Suc 2) ?u = replicate 3 ?u" by (simp add: numeral_3_eq_3)
  from C2_waitForAttestation_attempts
         [of 2 "mock_environment http_404_twice_then_complete" False "''0x01''" "''0xabc''" 5 10]
       a1 a2
  have p1: "waitForAttestation (mock_environment http_404_twice_then_complete) ''0x01'' False 5 10 initial_world
     = (Inr ''0xabc'',
        \<lparr>requests = replicate 3 ?u, sleeps = [10, 10], rpcCalls = []\<rparr>)"
    unfolding r3 by (simp add: numeral_2_eq_2)
  from C2_waitForAttestation_attempts
         [of 0 "mock_environment http_always_404" False "''0x01''" "[]" 2 10] b1
  have p2: "waitForAttestation (mock_environment http_always_404) ''0x01'' False 2 10 initial_world
     = (Inl (Error ''Attestation not available after 2 attempts''),
        \<lparr>requests = replicate 2 ?u, sleeps = [10], rpcCalls = []\<rparr>)"
    by (simp add: s)
  from p1 p2 show ?thesis by (rule conjI)
qed


section \<open>Fetching an attestation\<close>

text \<open>
  Claim C4. \<open>fetchAttestation\<close> issues one request, to the endpoint of the environment.
  A 404 becomes the ordinary result with status \<open>pending\<close>; any other error of the HTTP
  client becomes a thrown error that carries the client's message; a success response is
  returned as its status and its optional attestation.
\<close>

theorem C4_fetchAttestation_outcomes:
  "(http env (length (requests w)) (attestation_url t h) = AxiosRejected (Some 404) m
      \<longrightarrow> fst (fetchAttestation env h t w)
            = Inr \<lparr>status = ''pending'', attestation = None,
                   message = Some ''Attestation not yet available''\<rparr>)
   \<and> (http env (length (requests w)) (attestation_url t h) = AxiosRejected code m \<and> code \<noteq> Some 404
      \<longrightarrow> fst (fetchAttestation env h t w) = Inl (Error (''Attestation fetch failed: '' @ m)))
   \<and> (http env (length (requests w)) (attestation_url t h) = Resolved st att
      \<longrightarrow> fst (fetchAttestation env h t w) = Inr \<lparr>status = st, attestation = att, message = None\<rparr>)
   \<and> requests (snd (fetchAttestation env h t w)) = requests w @ [attestation_url t h]"
  by (cases t)
     (simp_all add: fetchAttestation_def attestation_url_def getAttestationServiceUrl_def Let_def
        split: http_outcome.splits)

theorem C4_fetchAttestation_outcomes_witness:
  "fst (fetchAttestation (mock_environment http_always_404) ''0x01'' False initial_world)
     = Inr \<lparr>status = ''pending'', attestation = None, message = Some ''Attestation not yet available''\<rparr>
   \<and> fst (fetchAttestation (mock_environment http_always_500) ''0x01'' False initial_world)
     = Inl (Error ''Attestation fetch failed: Request failed with status code 500'')
   \<and> fst (fetchAttestation (mock_environment http_404_twice_then_complete) ''0x01'' False
            (initial_world\<lparr>requests := [''a'', ''b'']\<rparr>))
     = Inr \<lparr>status = ''complete'', attestation = Some ''0xabc'', message = None\<rparr>"
proof -
  have a: "http (mock_environment http_always_404) (length (requests initial_world)) (attestation_url False ''0x01'')
             = AxiosRejected (Some 404) ''Request failed with status code 404''"
    by (simp add: mock_environment_def http_always_404_def)
  have b: "http (mock_environment http_always_500) (length (requests initial_world)) (attestation_url False ''0x01'')
             = AxiosRejected (Some 500) ''Request failed with status code 500'' \<and> Some (500::nat) \<noteq> Some 404"
    by (simp add: mock_environment_def http_always_500_def)
  have c: "http (mock_environment http_404_twice_then_complete)
             (length (requests (initial_world\<lparr>requests := [''a'', ''b'']\<rparr>))) (attestation_url False ''0x01'')
             = Resolved ''complete'' (Some ''0xabc'')"
    by (simp add: mock_environment_def http_404_twice_then_complete_def)
  from C4_fetchAttestation_outcomes [of "mock_environment http_always_404" initial_world False "''0x01''"
         "''Request failed with status code 404''"] a
  have p1: "fst (fetchAttestation (mock_environment http_always_404) ''0x01'' False initial_world)
     = Inr \<lparr>status = ''pending'', attestation = None, message = Some ''Attestation not yet available''\<rparr>"
    by blast
  from C4_fetchAttestation_outcomes [of "mock_environment http_always_500" initial_world False "''0x01''"
         "''Request failed with status code 500''" "Some 500"] b
  have p2: "fst (fetchAttestation (mock_environment http_always_500) ''0x01'' False initial_world)
     = Inl (Error (''Attestation fetch failed: '' @ ''Request failed with status code 500''))"
    by blast
  from C4_fetchAttestation_outcomes [of "mock_environment http_404_twice_then_complete"
         "initial_world\<lparr>requests := [''a'', ''b'']\<rparr>" False "''0x01''" _ _ "''complete''" "Some ''0xabc''"] c
  have p3: "fst (fetchAttestation (mock_environment http_404_twice_then_complete) ''0x01'' False
            (initial_world\<lparr>requests := [''a'', ''b'']\<rparr>))
     = Inr \<lparr>status = ''complete'', attestation = Some ''0xabc'', message = None\<rparr>"
    by blast
  from p1 p2 p3 show ?thesis by simp
qed


section \<open>Webhook signatures\<close>

text \<open>
  Claim C10. \<open>verifyWebhookSignature\<close> returns a boolean for every payload, signature
  and secret (the length mismatch that makes the comparison throw is caught and answered
  \<open>False\<close>); it answers \<open>False\<close> when any of the three is empty, and \<open>True\<close> exactly
  when none is empty and the signature equals the hex HMAC-SHA256 of the payload under the
  secret up to the case of its letters.
\<close>

theorem C10_verifyWebhookSignature_fail_closed:
  "verifyWebhookSignature P payload signature secret
     = (payload \<noteq> [] \<and> signature \<noteq> [] \<and> secret \<noteq> []
        \<and> eq_ignore_case signature (createHmac_sha256_hex P secret payload))"
  by (auto simp: verifyWebhookSignature_def timingSafeEqual_def eq_ignore_case_def Let_def)

section \<open>Transfer status\<close>

lemma getTransferStatus_Inr:
  assumes "getTransferStatus env config h w = (Inr r, w')"
  shows "\<exists>resp. getAttestation env config h w = (Inr resp, w')
           \<and> attestationStatus r = status resp \<and> statusAttestation r = attestation resp
           \<and> estimatedTime r = (if status resp = ''pending'' then 15 else 0)"
proof -
  obtain x w1 where g: "getAttestation env config h w = (x, w1)" by (cases "getAttestation env config h w")
  show ?thesis
  proof (cases x)
    case (Inl e)
    with assms g show ?thesis by (simp add: getTransferStatus_def)
  next
    case (Inr resp)
    with assms g show ?thesis by (auto simp: getTransferStatus_def)
  qed
qed


text \<open>
  Claim C9, as amended. \<open>getTransferStatus\<close> returns the status and the attestation of
  the attestation service's answer, and an estimate that is 15 when the status is
  \<open>pending\<close> and 0 otherwise, whatever the configured source network: the table of
  transfer times per network is not consulted. (The claim as stated, an estimate equal to
  the source network's entry of that table, fails for every source but ethereum; the
  counterexample below is a client whose source is avalanche, whose entry is 3.)
\<close>

theorem C9_estimate_is_flat:
  "getTransferStatus env config h w = (Inr r, w') \<Longrightarrow>
     estimatedTime r = (if attestationStatus r = ''pending'' then 15 else 0)
     \<and> (\<exists>resp. getAttestation env config h w = (Inr resp, w')
            \<and> attestationStatus r = status resp \<and> statusAttestation r = attestation resp)"
  using getTransferStatus_Inr [of env config h w r w'] by auto

lemma avalanche_pending:
  "getTransferStatus (mock_environment http_always_404) avalanche_to_ethereum ''0x01'' initial_world
     = (Inr \<lparr>attestationStatus = ''pending'', statusAttestation = None, estimatedTime = 15\<rparr>,
        \<lparr>requests = [''https://iris-api.circle.com/attestations/0x01''], sleeps = [], rpcCalls = []\<rparr>)"
  by (simp add: getTransferStatus_def getAttestation_def fetchAttestation_def isTestnet_client_def
        isTestnet_of_routes avalanche_to_ethereum_def mock_environment_def http_always_404_def
        initial_world_def ATTESTATION_SERVICE_URLS_mainnet_def Let_def)

theorem C9_estimate_counterexample:
  "fst (getTransferStatus (mock_environment http_always_404) avalanche_to_ethereum ''0x01'' initial_world)
     = Inr \<lparr>attestationStatus = ''pending'', statusAttestation = None, estimatedTime = 15\<rparr>
   \<and> estimateTransferTime (sourceNetwork avalanche_to_ethereum) (destinationNetwork avalanche_to_ethereum) = 3"
proof -
  have s: "sourceNetwork avalanche_to_ethereum = ''avalanche''"
    and d: "destinationNetwork avalanche_to_ethereum = ''ethereum''"
    by (simp_all add: avalanche_to_ethereum_def)
  have e: "estimateTransferTime ''avalanche'' ''ethereum'' = 3"
    by (simp add: estimateTransferTime_def CCTP_TRANSFER_TIMES_def or_else_def)
  show ?thesis by (simp add: avalanche_pending s d e)
qed

theorem C9_estimate_is_flat_witness:
  "getTransferStatus (mock_environment http_always_404) avalanche_to_ethereum ''0x01'' initial_world
     = (Inr \<lparr>attestationStatus = ''pending'', statusAttestation = None, estimatedTime = 15\<rparr>,
        \<lparr>requests = [''https://iris-api.circle.com/attestations/0x01''], sleeps = [], rpcCalls = []\<rparr>)
   \<and> estimatedTime \<lparr>attestationStatus = ''pending'', statusAttestation = None, estimatedTime = 15\<rparr>
       = (if attestationStatus \<lparr>attestationStatus = ''pending'', statusAttestation = None, estimatedTime = 15\<rparr>
             = ''pending'' then 15 else 0)"
  using C9_estimate_is_flat [OF avalanche_pending] avalanche_pending by blast


section \<open>Address validation\<close>

lemma recognised_fallback:
  "\<not> recognised_network n \<Longrightarrow> validateAddress a n = (a \<noteq> [] \<and> EVM_ADDRESS_REGEX (trim a))"
  by (auto simp: recognised_network_def validateAddress_def validateEvmAddress_iff Let_def)


lemma base58_codes:
  "(of_char ` set base58Chars :: nat set)
     = {49..57} \<union> {65..72} \<union> {74..78} \<union> {80..90} \<union> {97..107} \<union> {109..122}"
proof -
  have "(of_char ` set base58Chars :: nat set) = set (map of_char base58Chars)" by simp
  also have "\<dots> = set ([49..<58] @ [65..<73] @ [74..<79] @ [80..<91] @ [97..<108] @ [109..<123])"
    by (simp add: base58Chars_def upt_rec)
  also have "\<dots> = {49..57} \<union> {65..72} \<union> {74..78} \<union> {80..90} \<union> {97..107} \<union> {109..122}"
    by (simp only: set_append set_upt) auto
  finally show ?thesis .
qed

lemma base58_mem: "is_base58 c \<longleftrightarrow> c \<in> set base58Chars"
proof -
  have "c \<in> set base58Chars \<longleftrightarrow> (of_char c :: nat) \<in> of_char ` set base58Chars"
    by (rule inj_image_mem_iff [symmetric]) (rule injI, simp)
  also have "\<dots> \<longleftrightarrow> is_base58 c"
    unfolding base58_codes by (simp add: is_base58_def char_in_def)
  finally show ?thesis by simp
qed

lemma validateSolanaAddress_iff: "validateSolanaAddress a = SOLANA_ADDRESS_REGEX a"
  by (auto simp: validateSolanaAddress_def SOLANA_ADDRESS_REGEX_def list_all_iff base58_mem)

text \<open>
  Claim C8, as amended. For every address and every network name, \<open>validateAddress\<close>
  answers with a bare boolean that does not say which check failed. It is \<open>True\<close> exactly
  when the address is not empty and, trimmed, matches the pattern of the network: the EVM
  pattern on the twelve EVM networks, the Solana pattern on \<open>solana\<close> and
  \<open>solana-devnet\<close>, the Stellar, NEAR, Noble and Hedera patterns on \<open>stellar\<close>, \<open>near\<close>,
  \<open>noble\<close> and \<open>hedera\<close>, and the EVM pattern again on every other name: a network the
  function has no branch for is not rejected as unsupported. (The claim as stated, that a
  failure distinguishes a malformed address from an unsupported network, fails: the
  counterexample below has the same answer \<open>False\<close> for a malformed address on ethereum
  and on an unknown network, and the answer \<open>True\<close> for an EVM address on the unknown
  network.)
\<close>

theorem C8_validation_is_a_bare_boolean:
  "(n \<in> set EVM_NETWORKS \<longrightarrow> validateAddress a n = (a \<noteq> [] \<and> EVM_ADDRESS_REGEX (trim a)))
   \<and> (n = ''solana'' \<or> n = ''solana-devnet''
        \<longrightarrow> validateAddress a n = (a \<noteq> [] \<and> SOLANA_ADDRESS_REGEX (trim a)))
   \<and> (n = ''stellar'' \<longrightarrow> validateAddress a n = (a \<noteq> [] \<and> STELLAR_ADDRESS_REGEX (trim a)))
   \<and> (n = ''near'' \<longrightarrow> validateAddress a n = (a \<noteq> [] \<and> NEAR_ADDRESS_REGEX (trim a)))
   \<and> (n = ''noble'' \<longrightarrow> validateAddress a n = (a \<noteq> [] \<and> NOBLE_ADDRESS_REGEX (trim a)))
   \<and> (n = ''hedera'' \<longrightarrow> validateAddress a n = (a \<noteq> [] \<and> HEDERA_ADDRESS_REGEX (trim a)))
   \<and> (\<not> recognised_network n \<longrightarrow> validateAddress a n = (a \<noteq> [] \<and> EVM_ADDRESS_REGEX (trim a)))"
proof -
  have e: "''solana'' \<notin> set EVM_NETWORKS" "''solana-devnet'' \<notin> set EVM_NETWORKS"
    "''stellar'' \<notin> set EVM_NETWORKS" "''near'' \<notin> set EVM_NETWORKS"
    "''noble'' \<notin> set EVM_NETWORKS" "''hedera'' \<notin> set EVM_NETWORKS"
    by (simp_all add: EVM_NETWORKS_def)
  have 1: "n \<in> set EVM_NETWORKS \<Longrightarrow> validateAddress a n = (a \<noteq> [] \<and> EVM_ADDRESS_REGEX (trim a))"
    by (simp add: validateAddress_def validateEvmAddress_iff Let_def)
  have 2: "n = ''solana'' \<or> n = ''solana-devnet''
        \<Longrightarrow> validateAddress a n = (a \<noteq> [] \<and> SOLANA_ADDRESS_REGEX (trim a))"
    using e by (auto simp: validateAddress_def validateSolanaAddress_iff Let_def)
  have 3: "n = ''stellar'' \<Longrightarrow> validateAddress a n = (a \<noteq> [] \<and> STELLAR_ADDRESS_REGEX (trim a))"
    using e by (simp add: validateAddress_def validateStellarAddress_def Let_def)
  have 4: "n = ''near'' \<Longrightarrow> validateAddress a n = (a \<noteq> [] \<and> NEAR_ADDRESS_REGEX (trim a))"
    using e by (simp add: validateAddress_def validateNearAddress_def Let_def)
  have 5: "n = ''noble'' \<Longrightarrow> validateAddress a n = (a \<noteq> [] \<and> NOBLE_ADDRESS_REGEX (trim a))"
    using e by (simp add: validateAddress_def validateNobleAddress_def Let_def)
  have 6: "n = ''hedera'' \<Longrightarrow> validateAddress a n = (a \<noteq> [] \<and> HEDERA_ADDRESS_REGEX (trim a))"
    using e by (simp add: validateAddress_def validateHederaAddress_def Let_def)
  from 1 2 3 4 5 6 recognised_fallback [of n a] show ?thesis by blast
qed

lemma dogecoin_unrecognised: "\<not> recognised_network ''dogecoin''"
  by (simp add: recognised_network_def EVM_NETWORKS_def)

lemma ethereum_recognised: "recognised_network ''ethereum''"
  by (simp add: recognised_network_def EVM_NETWORKS_def)

lemma trim_plain: "trim ''not-an-address'' = ''not-an-address''"
  by (simp add: trim_def is_space_def)

theorem C8_validation_counterexample:
  "recognised_network ''ethereum'' \<and> validateAddress ''not-an-address'' ''ethereum'' = False
   \<and> \<not> recognised_network ''dogecoin'' \<and> validateAddress ''not-an-address'' ''dogecoin'' = False
   \<and> validateAddress ''0x1234567890123456789012345678901234567890'' ''dogecoin'' = True"
proof -
  have e: "''ethereum'' \<in> set EVM_NETWORKS" by (simp add: EVM_NETWORKS_def)
  have 1: "validateAddress ''not-an-address'' ''ethereum'' = False"
    using e by (simp add: validateAddress_def validateEvmAddress_iff trim_plain EVM_ADDRESS_REGEX_def)
  have 2: "validateAddress ''not-an-address'' ''dogecoin'' = False"
    by (simp add: recognised_fallback [OF dogecoin_unrecognised] trim_plain EVM_ADDRESS_REGEX_def)
  have t: "trim ''0x1234567890123456789012345678901234567890'' = ''0x1234567890123456789012345678901234567890''"
    by (simp add: trim_def is_space_def)
  have 3: "validateAddress ''0x1234567890123456789012345678901234567890'' ''dogecoin'' = True"
    by (simp add: recognised_fallback [OF dogecoin_unrecognised] t EVM_ADDRESS_REGEX_def
          is_hex_def is_digit_def char_in_def)
  from ethereum_recognised dogecoin_unrecognised 1 2 3 show ?thesis by simp
qed

lemmas pattern_eval = trim_def is_space_def is_hex_def is_base58_def is_near_char_def is_digit_def
  is_lower_def is_upper_def char_in_def

lemma evm_example:
  "''0x1234567890123456789012345678901234567890'' \<noteq> []
   \<and> EVM_ADDRESS_REGEX (trim ''0x1234567890123456789012345678901234567890'')"
  by (simp add: EVM_ADDRESS_REGEX_def pattern_eval)

lemma solana_example:
  "''EPjFWdd5AufqSSqeM2qN1xzybapC8G4wEGGkZwyTDt1v'' \<noteq> []
   \<and> SOLANA_ADDRESS_REGEX (trim ''EPjFWdd5AufqSSqeM2qN1xzybapC8G4wEGGkZwyTDt1v'')"
  by (simp add: SOLANA_ADDRESS_REGEX_def pattern_eval)

lemma solana_evm_example:
  "\<not> (''0x1234567890123456789012345678901234567890'' \<noteq> []
   \<and> SOLANA_ADDRESS_REGEX (trim ''0x1234567890123456789012345678901234567890''))"
  by (simp add: SOLANA_ADDRESS_REGEX_def pattern_eval)

lemma stellar_example:
  "''GAAAAAAAAAAAAAAAAAAAAAAAAAAAAAAAAAAAAAAAAAAAAAAAAAAAAAAA'' \<noteq> []
   \<and> STELLAR_ADDRESS_REGEX (trim ''GAAAAAAAAAAAAAAAAAAAAAAAAAAAAAAAAAAAAAAAAAAAAAAAAAAAAAAA'')"
  by (simp add: STELLAR_ADDRESS_REGEX_def pattern_eval)

lemma near_example:
  "''example.near'' \<noteq> [] \<and> NEAR_ADDRESS_REGEX (trim ''example.near'')"
  by (simp add: NEAR_ADDRESS_REGEX_def toLowerCase_def lower_char_def pattern_eval)

lemma noble_example:
  "''noble1qg8r9pvrh4u6fgcdjs37l4g8dp2a35c3ykrzzz'' \<noteq> []
   \<and> NOBLE_ADDRESS_REGEX (trim ''noble1qg8r9pvrh4u6fgcdjs37l4g8dp2a35c3ykrzzz'')"
  by (simp add: NOBLE_ADDRESS_REGEX_def pattern_eval)

lemma hedera_example:
  "''0.0.123456'' \<noteq> [] \<and> HEDERA_ADDRESS_REGEX (trim ''0.0.123456'')"
  by (simp add: HEDERA_ADDRESS_REGEX_def pattern_eval)

theorem C8_validation_is_a_bare_boolean_witness:
  "''ethereum'' \<in> set EVM_NETWORKS
   \<and> validateAddress ''0x1234567890123456789012345678901234567890'' ''ethereum''
   \<and> validateAddress ''EPjFWdd5AufqSSqeM2qN1xzybapC8G4wEGGkZwyTDt1v'' ''solana''
   \<and> \<not> validateAddress ''0x1234567890123456789012345678901234567890'' ''solana-devnet''
   \<and> validateAddress ''GAAAAAAAAAAAAAAAAAAAAAAAAAAAAAAAAAAAAAAAAAAAAAAAAAAAAAAA'' ''stellar''
   \<and> validateAddress ''example.near'' ''near''
   \<and> validateAddress ''noble1qg8r9pvrh4u6fgcdjs37l4g8dp2a35c3ykrzzz'' ''noble''
   \<and> validateAddress ''0.0.123456'' ''hedera''
   \<and> \<not> recognised_network ''dogecoin''
   \<and> validateAddress ''0x1234567890123456789012345678901234567890'' ''dogecoin''"
proof -
  have e: "''ethereum'' \<in> set EVM_NETWORKS" by (simp add: EVM_NETWORKS_def)
  have 1: "validateAddress ''0x1234567890123456789012345678901234567890'' ''ethereum''"
    using C8_validation_is_a_bare_boolean [of "''ethereum''" "''0x1234567890123456789012345678901234567890''"] e evm_example
    by simp
  have 2: "validateAddress ''EPjFWdd5AufqSSqeM2qN1xzybapC8G4wEGGkZwyTDt1v'' ''solana''"
    using C8_validation_is_a_bare_boolean [of "''solana''" "''EPjFWdd5AufqSSqeM2qN1xzybapC8G4wEGGkZwyTDt1v''"] solana_example
    by simp
  have 3: "\<not> validateAddress ''0x1234567890123456789012345678901234567890'' ''solana-devnet''"
    using C8_validation_is_a_bare_boolean [of "''solana-devnet''" "''0x1234567890123456789012345678901234567890''"]
      solana_evm_example
    by simp
  have 4: "validateAddress ''GAAAAAAAAAAAAAAAAAAAAAAAAAAAAAAAAAAAAAAAAAAAAAAAAAAAAAAA'' ''stellar''"
    using C8_validation_is_a_bare_boolean [of "''stellar''" "''GAAAAAAAAAAAAAAAAAAAAAAAAAAAAAAAAAAAAAAAAAAAAAAAAAAAAAAA''"]
      stellar_example
    by simp
  have 5: "validateAddress ''example.near'' ''near''"
    using C8_validation_is_a_bare_boolean [of "''near''" "''example.near''"] near_example by simp
  have 6: "validateAddress ''noble1qg8r9pvrh4u6fgcdjs37l4g8dp2a35c3ykrzzz'' ''noble''"
    using C8_validation_is_a_bare_boolean [of "''noble''" "''noble1qg8r9pvrh4u6fgcdjs37l4g8dp2a35c3ykrzzz''"] noble_example
    by simp
  have 7: "validateAddress ''0.0.123456'' ''hedera''"
    using C8_validation_is_a_bare_boolean [of "''hedera''" "''0.0.123456''"] hedera_example by simp
  have 8: "validateAddress ''0x1234567890123456789012345678901234567890'' ''dogecoin''"
    using C8_validation_is_a_bare_boolean [of "''dogecoin''" "''0x1234567890123456789012345678901234567890''"]
      dogecoin_unrecognised evm_example
    by simp
  from e 1 2 3 4 5 6 7 dogecoin_unrecognised 8 show ?thesis by simp
qed

section \<open>Initiating a transfer\<close>

text \<open>
  Claim C5. When the destination address is invalid for the configured destination
  network, \<open>initiateTransfer\<close> throws the validation error and the world is unchanged:
  no transaction is submitted and no confirmation is awaited.
\<close>

theorem C5_validation_precedes_chain_calls:
  "\<not> validateAddress (destinationAddress params) (destinationNetwork config) \<Longrightarrow>
     initiateTransfer P env config params w
       = (Inl (Error (''Invalid destination address for '' @ destinationNetwork config)), w)
     \<and> rpcCalls (snd (initiateTransfer P env config params w)) = rpcCalls w"
  by (simp add: initiateTransfer_def)

lemma invalid_for_ethereum:
  "\<not> validateAddress ''EPjFWdd5AufqSSqeM2qN1xzybapC8G4wEGGkZwyTDt1v'' ''ethereum''"
proof -
  have e: "''ethereum'' \<in> set EVM_NETWORKS" by (simp add: EVM_NETWORKS_def)
  have t: "trim ''EPjFWdd5AufqSSqeM2qN1xzybapC8G4wEGGkZwyTDt1v'' = ''EPjFWdd5AufqSSqeM2qN1xzybapC8G4wEGGkZwyTDt1v''"
    by (simp add: trim_def is_space_def)
  show ?thesis using e by (simp add: validateAddress_def validateEvmAddress_iff t EVM_ADDRESS_REGEX_def)
qed

theorem C5_validation_precedes_chain_calls_witness:
  "\<not> validateAddress
        (destinationAddress \<lparr>amount = ''100.50'', destinationAddress = ''EPjFWdd5AufqSSqeM2qN1xzybapC8G4wEGGkZwyTDt1v'', destinationCaller = None\<rparr>)
        (destinationNetwork avalanche_to_ethereum)
   \<and> initiateTransfer mock_platform (mock_environment http_always_404) avalanche_to_ethereum
        \<lparr>amount = ''100.50'', destinationAddress = ''EPjFWdd5AufqSSqeM2qN1xzybapC8G4wEGGkZwyTDt1v'', destinationCaller = None\<rparr>
        initial_world
       = (Inl (Error ''Invalid destination address for ethereum''), initial_world)
   \<and> rpcCalls (snd (initiateTransfer mock_platform (mock_environment http_always_404) avalanche_to_ethereum
        \<lparr>amount = ''100.50'', destinationAddress = ''EPjFWdd5AufqSSqeM2qN1xzybapC8G4wEGGkZwyTDt1v'', destinationCaller = None\<rparr>
        initial_world)) = []"
proof -
  let ?p = "\<lparr>amount = ''100.50'', destinationAddress = ''EPjFWdd5AufqSSqeM2qN1xzybapC8G4wEGGkZwyTDt1v'', destinationCaller = None\<rparr>"
  have d: "destinationNetwork avalanche_to_ethereum = ''ethereum''" by (simp add: avalanche_to_ethereum_def)
  have v: "\<not> validateAddress (destinationAddress ?p) (destinationNetwork avalanche_to_ethereum)"
    using invalid_for_ethereum by (simp add: d)
  from C5_validation_precedes_chain_calls [OF v, of mock_platform "mock_environment http_always_404" initial_world] v
  show ?thesis by (simp add: d initial_world_def)
qed

section \<open>Binary64 rounding\<close>

declare bit_length.simps [simp del]
declare string_of_nat.simps [simp del]

lemma pow2_powi: "pow2 e = 2 powi e"
  by (simp add: pow2_def power_int_def power_inverse [symmetric] inverse_eq_divide power_one_over)

lemma pow2_pos: "0 < pow2 e"
  by (simp add: pow2_powi)

lemma pow2_add: "pow2 (a + b) = pow2 a * pow2 b"
  by (simp add: pow2_powi power_int_add)

lemma pow2_mono: "a \<le> b \<Longrightarrow> pow2 a \<le> pow2 b"
  by (simp add: pow2_powi power_int_increasing)

lemma pow2_less_imp: "pow2 a < pow2 b \<Longrightarrow> a < b"
  using pow2_mono [of b a] by (cases "a < b") auto

lemma pow2_nat: "pow2 (int n) = 2 ^ n"
  by (simp add: pow2_def)

lemma pow2_neg_nat: "pow2 (- int n) = 1 / 2 ^ n"
  by (simp add: pow2_powi power_int_minus inverse_eq_divide)

lemma bit_length_bounds:
  "0 < n \<Longrightarrow> 2 ^ (bit_length n - 1) \<le> n \<and> n < 2 ^ bit_length n"
proof (induction n rule: bit_length.induct)
  case (1 n)
  show ?case
  proof (cases "n div 2 = 0")
    case True
    with "1.prems" have n1: "n = 1" by (cases n) auto
    have "bit_length 1 = 1" by (simp add: bit_length.simps)
    with n1 show ?thesis by simp
  next
    case False
    then have pos: "0 < n div 2" by simp
    from "1.prems" have nz: "n \<noteq> 0" by simp
    from "1.IH" [OF nz pos] have lo: "2 ^ (bit_length (n div 2) - 1) \<le> n div 2"
      and hi: "n div 2 < 2 ^ bit_length (n div 2)" by simp_all
    have bl: "bit_length n = Suc (bit_length (n div 2))" using nz by (simp add: bit_length.simps)
    have blpos: "0 < bit_length (n div 2)" using pos by (simp add: bit_length.simps)
    then obtain k where k: "bit_length (n div 2) = Suc k" by (cases "bit_length (n div 2)") auto
    from lo k have "2 * 2 ^ k \<le> 2 * (n div 2)" by simp
    also have "\<dots> \<le> n" by simp
    finally have l: "2 ^ (bit_length n - 1) \<le> n" by (simp add: bl k)
    from hi have "Suc (n div 2) \<le> 2 ^ bit_length (n div 2)" by simp
    then have "2 * Suc (n div 2) \<le> 2 * 2 ^ bit_length (n div 2)" by simp
    moreover have "n < 2 * Suc (n div 2)" by simp
    ultimately have h: "n < 2 ^ bit_length n" by (simp add: bl)
    from l h show ?thesis by simp
  qed
qed

lemma bit_length_pos: "0 < n \<Longrightarrow> 0 < bit_length n"
  by (simp add: bit_length.simps)


lemma ilog2_bounds:
  assumes "0 < x"
  shows "pow2 (ilog2 x) \<le> x" and "x < pow2 (ilog2 x + 1)"
proof -
  have "pow2 (ilog2 x) \<le> x \<and> x < pow2 (ilog2 x + 1)"
  proof (cases "1 \<le> x")
    case True
    define n where "n = nat \<lfloor>x\<rfloor>"
    have fl: "1 \<le> \<lfloor>x\<rfloor>" using True by simp
    then have npos: "0 < n" by (simp add: n_def)
    have nf: "(of_nat n :: rat) = of_int \<lfloor>x\<rfloor>" using fl by (simp add: n_def)
    have nx: "of_nat n \<le> x" and xn: "x < of_nat n + 1"
      unfolding nf by linarith+
    from bit_length_bounds [OF npos] have lo: "2 ^ (bit_length n - 1) \<le> n" and hi: "n < 2 ^ bit_length n"
      by simp_all
    from bit_length_pos [OF npos] obtain k where k: "bit_length n = Suc k" by (cases "bit_length n") auto
    have e: "ilog2 x = int k" using True by (simp add: ilog2_def n_def [symmetric] k)
    from lo k have "2 ^ k \<le> n" by simp
    then have "(of_nat (2 ^ k) :: rat) \<le> of_nat n" by (simp only: of_nat_le_iff)
    then have kn: "(2::rat) ^ k \<le> of_nat n" by simp
    have l: "pow2 (int k) \<le> x" unfolding pow2_nat using kn nx by (rule order_trans)
    from hi have "Suc n \<le> 2 ^ Suc k" by (simp add: k)
    then have "(of_nat (Suc n) :: rat) \<le> of_nat (2 ^ Suc k)" by (simp only: of_nat_le_iff)
    then have "(of_nat n :: rat) + 1 \<le> 2 ^ Suc k" by simp
    with xn have "x < 2 ^ Suc k" by simp
    then have h: "x < pow2 (int k + 1)" using pow2_nat [of "Suc k"] by (simp add: add.commute)
    from l h e show ?thesis by simp
  next
    case False
    then have x1: "x < 1" by simp
    define y where "y = 1 / x"
    have y1: "1 < y" using assms x1 by (simp add: y_def)
    define m where "m = nat (\<lceil>y\<rceil> - 1)"
    have c2: "2 \<le> \<lceil>y\<rceil>" using y1 by (simp add: le_ceiling_iff)
    then have mpos: "0 < m" by (simp add: m_def)
    have mc: "int m = \<lceil>y\<rceil> - 1" using c2 by (simp add: m_def)
    from bit_length_bounds [OF mpos] have lo: "2 ^ (bit_length m - 1) \<le> m" and hi: "m < 2 ^ bit_length m"
      by simp_all
    from bit_length_pos [OF mpos] obtain k where k: "bit_length m = Suc k" by (cases "bit_length m") auto
    have e: "ilog2 x = - int (Suc k)" using False by (simp add: ilog2_def y_def [symmetric] m_def [symmetric] k)
    from hi have "Suc m \<le> 2 ^ Suc k" by (simp add: k)
    then have "int (Suc m) \<le> int (2 ^ Suc k)" by (simp only: of_nat_le_iff)
    then have "int m + 1 \<le> 2 ^ Suc k" by simp
    then have "\<lceil>y\<rceil> \<le> 2 ^ Suc k" by (simp add: mc)
    then have "y \<le> of_int (2 ^ Suc k)" by (simp only: ceiling_le_iff)
    then have yk: "y \<le> 2 ^ Suc k" by simp
    have q: "1 / y = x" using assms by (simp add: y_def)
    have "1 / 2 ^ Suc k \<le> 1 / y" using yk y1 by (intro divide_left_mono) (auto intro: mult_pos_pos)
    then have "1 / 2 ^ Suc k \<le> x" unfolding q .
    then have l: "pow2 (- int (Suc k)) \<le> x" by (simp only: pow2_neg_nat)
    from lo have "2 ^ k \<le> m" by (simp add: k)
    then have "int (2 ^ k) \<le> int m" by (simp only: of_nat_le_iff)
    then have "(2::int) ^ k \<le> int m" by simp
    then have "2 ^ k < \<lceil>y\<rceil>" by (simp add: mc)
    then have "of_int (2 ^ k) < y" by (simp only: less_ceiling_iff)
    then have ky: "2 ^ k < y" by simp
    have ypos: "0 < y" using y1 by simp
    have "1 / y < 1 / 2 ^ k" using ky ypos by (simp add: frac_less2)
    then have "x < 1 / 2 ^ k" unfolding q .
    then have "x < pow2 (- int k)" by (simp only: pow2_neg_nat)
    moreover have "- int (Suc k) + 1 = - int k" by simp
    ultimately have h: "x < pow2 (- int (Suc k) + 1)" by simp
    from l h e show ?thesis by simp
  qed
  then show "pow2 (ilog2 x) \<le> x" and "x < pow2 (ilog2 x + 1)" by simp_all
qed


lemma round_half_even_error: "\<bar>of_int (round_half_even x) - x\<bar> \<le> 1 / 2"
proof -
  have a: "of_int \<lfloor>x\<rfloor> \<le> x" and b: "x < of_int \<lfloor>x\<rfloor> + 1" by linarith+
  show ?thesis
    unfolding round_half_even_def Let_def using a b by (auto simp: abs_le_iff)
qed

lemma round_to_double_half_ulp:
  assumes lo: "pow2 (- 1022) \<le> x" and hi: "x \<le> 2 ^ 1000"
  shows "\<exists>y. round_to_double x = Finite y \<and> \<bar>y - x\<bar> \<le> pow2 (ilog2 x - 53)"
proof -
  have xpos: "0 < x" using lo pow2_pos [of "- 1022"] by linarith
  define e where "e = ilog2 x"
  have e_lo: "pow2 e \<le> x" and e_hi: "x < pow2 (e + 1)"
    using ilog2_bounds [OF xpos] by (simp_all add: e_def)
  have "pow2 (- 1022) < pow2 (e + 1)" using lo e_hi by linarith
  then have e_min: "- 1022 \<le> e" using pow2_less_imp [of "- 1022" "e + 1"] by simp
  define ulp where "ulp = pow2 (e - 52)"
  have ulp_pos: "0 < ulp" by (simp add: ulp_def pow2_pos)
  define m where "m = round_half_even (x / ulp)"
  define y where "y = of_int m * ulp"
  have "\<bar>of_int m - x / ulp\<bar> \<le> 1 / 2" unfolding m_def by (rule round_half_even_error)
  then have "\<bar>of_int m - x / ulp\<bar> * ulp \<le> 1 / 2 * ulp"
    using ulp_pos by (intro mult_right_mono) simp_all
  moreover have "(of_int m - x / ulp) * ulp = y - x"
    using ulp_pos by (simp add: y_def field_simps)
  then have "\<bar>of_int m - x / ulp\<bar> * ulp = \<bar>y - x\<bar>"
    using ulp_pos by (metis abs_mult abs_of_pos)
  ultimately have err: "\<bar>y - x\<bar> \<le> ulp / 2" by simp
  have "pow2 (e - 52) = pow2 (e - 53) * pow2 1" using pow2_add [of "e - 53" 1] by simp
  then have half: "ulp / 2 = pow2 (e - 53)" by (simp add: ulp_def pow2_def)
  have "pow2 e = pow2 (e - 53) * pow2 53" using pow2_add [of "e - 53" 53] by simp
  then have "pow2 (e - 53) = pow2 e / 2 ^ 53" by (simp add: pow2_def)
  also have "\<dots> \<le> x / 2 ^ 53" using e_lo by (simp add: divide_right_mono)
  also have "\<dots> \<le> x" using xpos by (simp add: divide_le_eq)
  finally have "pow2 (e - 53) \<le> x" .
  with err half have "y \<le> 2 * x" by linarith
  also have "\<dots> \<le> 2 * 2 ^ 1000" using hi by simp
  also have "\<dots> < pow2 1024" by (simp add: pow2_def)
  finally have no_overflow: "\<not> pow2 1024 \<le> y" by simp
  have "round_to_double x = Finite y"
    using xpos e_min no_overflow
    by (simp add: round_to_double_def Let_def e_def [symmetric] max_absorb1 ulp_def [symmetric]
          m_def [symmetric] y_def [symmetric] abs_of_pos)
  with err half show ?thesis unfolding e_def by auto
qed


lemma round_to_double_error_below:
  assumes lo: "pow2 (- 1022) \<le> x" and hi: "x < pow2 k" and k: "k \<le> 1000"
  shows "\<exists>y. round_to_double x = Finite y \<and> \<bar>y - x\<bar> \<le> pow2 (k - 54)"
proof -
  have xpos: "0 < x" using lo pow2_pos [of "- 1022"] by linarith
  have "pow2 k \<le> pow2 1000" using k by (rule pow2_mono)
  also have "\<dots> = 2 ^ 1000" by (simp add: pow2_def)
  finally have hi': "x \<le> 2 ^ 1000" using hi by linarith
  from round_to_double_half_ulp [OF lo hi'] obtain y
    where y: "round_to_double x = Finite y" and e: "\<bar>y - x\<bar> \<le> pow2 (ilog2 x - 53)" by blast
  have "pow2 (ilog2 x) < pow2 k" using ilog2_bounds(1) [OF xpos] hi by linarith
  then have "ilog2 x < k" by (rule pow2_less_imp)
  then have "pow2 (ilog2 x - 53) \<le> pow2 (k - 54)" by (intro pow2_mono) simp
  with e have "\<bar>y - x\<bar> \<le> pow2 (k - 54)" by linarith
  with y show ?thesis by blast
qed

section \<open>Scaling an amount by \<open>10\<^sup>6\<close>\<close>

lemma floor_numeral_div [simp]: "\<lfloor>(numeral a :: rat) / numeral b\<rfloor> = numeral a div numeral b"
  using floor_divide_of_int_eq [of "numeral a" "numeral b", where ?'a = rat] by simp

lemma floor_one_div [simp]: "\<lfloor>(1 :: rat) / numeral b\<rfloor> = 1 div numeral b"
  using floor_divide_of_int_eq [of 1 "numeral b", where ?'a = rat] by simp

lemma ceiling_numeral_div [simp]: "\<lceil>(numeral a :: rat) / numeral b\<rceil> = - ((- numeral a) div numeral b)"
  using floor_divide_of_int_eq [of "- numeral a" "numeral b", where ?'a = rat]
  by (simp add: ceiling_def)

lemma floor_neg_numeral_div [simp]: "\<lfloor>- ((numeral a :: rat) / numeral b)\<rfloor> = (- numeral a) div numeral b"
  using floor_divide_of_int_eq [of "- numeral a" "numeral b", where ?'a = rat] by simp

lemmas double_eval = round_to_double_def ilog2_def pow2_def round_half_even_def Let_def bit_length.simps

lemma Math_pow10_6: "Math_pow10 6 = Finite 1000000"
  by (simp add: Math_pow10_def double_eval)

lemma scaled_round_below:
  assumes "n < 2 ^ 32 * 10 ^ 6"
  shows "\<exists>y. round_to_double (of_nat n / 10 ^ 6) = Finite y
             \<and> Math_round (js_times (Finite y) (Math_pow10 6)) = Finite (of_nat n)"
proof (cases "n = 0")
  case True
  then show ?thesis by (simp add: Math_pow10_6 round_to_double_def)
next
  case False
  then have n1: "(1::rat) \<le> of_nat n" by simp
  have nhi: "(of_nat n :: rat) < 2 ^ 32 * 10 ^ 6"
  proof -
    from assms have "(of_nat n :: rat) < of_nat (2 ^ 32 * 10 ^ 6)" by (simp only: of_nat_less_iff)
    then show ?thesis by simp
  qed
  define a :: rat where "a = of_nat n / 10 ^ 6"
  have a_lo: "1 / 10 ^ 6 \<le> a" using n1 by (simp add: a_def divide_right_mono)
  have "pow2 (- 1022) \<le> 1 / 10 ^ 6" by (simp add: pow2_def)
  with a_lo have lo1: "pow2 (- 1022) \<le> a" by linarith
  have a_n: "a * 10 ^ 6 = of_nat n" by (simp add: a_def)
  have "a < 2 ^ 32" using nhi by (simp add: a_def field_simps)
  then have hi1: "a < pow2 32" by (simp add: pow2_def)
  from round_to_double_error_below [OF lo1 hi1] obtain y1
    where y1: "round_to_double a = Finite y1" and e1': "\<bar>y1 - a\<bar> \<le> pow2 (32 - 54)" by auto
  have e1: "\<bar>y1 - a\<bar> \<le> 1 / 2 ^ 22" using e1' by (simp add: pow2_def)
  define v where "v = y1 * 1000000"
  have d: "v - of_nat n = (y1 - a) * 1000000"
    unfolding v_def a_n [symmetric] by (simp add: left_diff_distrib)
  have "\<bar>v - of_nat n\<bar> = \<bar>y1 - a\<bar> * \<bar>1000000\<bar>"
    unfolding d by (rule abs_mult)
  also have "\<dots> = \<bar>y1 - a\<bar> * 1000000" by simp
  also have "\<dots> \<le> 1 / 2 ^ 22 * 1000000" using e1 by simp
  also have "\<dots> < 1 / 4" by simp
  finally have dv: "\<bar>v - of_nat n\<bar> < 1 / 4" .
  have "(2::rat) ^ 32 * 10 ^ 6 + 1 / 4 < 2 ^ 52" by simp
  with dv n1 nhi have v_lo: "3 / 4 < v" and v_hi: "v < 2 ^ 52" by linarith+
  have "pow2 (- 1022) \<le> 3 / 4" by (simp add: pow2_def)
  with v_lo have lo2: "pow2 (- 1022) \<le> v" by linarith
  have hi2: "v < pow2 52" using v_hi by (simp add: pow2_def)
  from round_to_double_error_below [OF lo2 hi2] obtain p
    where p: "round_to_double v = Finite p" and e2': "\<bar>p - v\<bar> \<le> pow2 (52 - 54)" by auto
  have e2: "\<bar>p - v\<bar> \<le> 1 / 4" using e2' by (simp add: pow2_def)
  with dv have pn: "\<bar>p - of_nat n\<bar> < 1 / 2" by linarith
  have fl: "\<lfloor>p + 1 / 2\<rfloor> = int n"
  proof (rule floor_unique)
    show "of_int (int n) \<le> p + 1 / 2" using pn by (simp only: of_int_of_nat_eq, linarith?)
    show "p + 1 / 2 < of_int (int n) + 1" using pn by (simp only: of_int_of_nat_eq, linarith?)
  qed
  have "Math_round (js_times (Finite y1) (Math_pow10 6)) = Finite (of_nat n)"
    unfolding Math_pow10_6 by (simp add: v_def [symmetric] p fl)
  with y1 show ?thesis unfolding a_def by blast
qed

lemma scaled_round_edge:
  assumes lo: "4294967296000000 \<le> n" and hi: "n < 4294967296000011"
  shows "\<exists>y. round_to_double (of_nat n / 10 ^ 6) = Finite y
             \<and> Math_round (js_times (Finite y) (Math_pow10 6)) = Finite (of_nat n)"
proof -
  have "n = 4294967296000000 \<or> n = 4294967296000001 \<or> n = 4294967296000002
      \<or> n = 4294967296000003 \<or> n = 4294967296000004 \<or> n = 4294967296000005
      \<or> n = 4294967296000006 \<or> n = 4294967296000007 \<or> n = 4294967296000008
      \<or> n = 4294967296000009 \<or> n = 4294967296000010"
    using lo hi by presburger
  then show ?thesis
  proof (elim disjE)
    assume n: "n = 4294967296000000"
    show ?thesis
      unfolding n
    proof (intro exI [of _ "4294967296"] conjI)
      show "round_to_double (of_nat 4294967296000000 / 10 ^ 6) = Finite (4294967296)"
        by (simp add: double_eval)
      show "Math_round (js_times (Finite (4294967296)) (Math_pow10 6)) = Finite (of_nat 4294967296000000)"
        by (simp add: Math_pow10_6 double_eval)
    qed
  next
    assume n: "n = 4294967296000001"
    show ?thesis
      unfolding n
    proof (intro exI [of _ "4503599627370497 / 1048576"] conjI)
      show "round_to_double (of_nat 4294967296000001 / 10 ^ 6) = Finite (4503599627370497 / 1048576)"
        by (simp add: double_eval)
      show "Math_round (js_times (Finite (4503599627370497 / 1048576)) (Math_pow10 6)) = Finite (of_nat 4294967296000001)"
        by (simp add: Math_pow10_6 double_eval)
    qed
  next
    assume n: "n = 4294967296000002"
    show ?thesis
      unfolding n
    proof (intro exI [of _ "2251799813685249 / 524288"] conjI)
      show "round_to_double (of_nat 4294967296000002 / 10 ^ 6) = Finite (2251799813685249 / 524288)"
        by (simp add: double_eval)
      show "Math_round (js_times (Finite (2251799813685249 / 524288)) (Math_pow10 6)) = Finite (of_nat 4294967296000002)"
        by (simp add: Math_pow10_6 double_eval)
    qed
  next
    assume n: "n = 4294967296000003"
    show ?thesis
      unfolding n
    proof (intro exI [of _ "4503599627370499 / 1048576"] conjI)
      show "round_to_double (of_nat 4294967296000003 / 10 ^ 6) = Finite (4503599627370499 / 1048576)"
        by (simp add: double_eval)
      show "Math_round (js_times (Finite (4503599627370499 / 1048576)) (Math_pow10 6)) = Finite (of_nat 4294967296000003)"
        by (simp add: Math_pow10_6 double_eval)
    qed
  next
    assume n: "n = 4294967296000004"
    show ?thesis
      unfolding n
    proof (intro exI [of _ "1125899906842625 / 262144"] conjI)
      show "round_to_double (of_nat 4294967296000004 / 10 ^ 6) = Finite (1125899906842625 / 262144)"
        by (simp add: double_eval)
      show "Math_round (js_times (Finite (1125899906842625 / 262144)) (Math_pow10 6)) = Finite (of_nat 4294967296000004)"
        by (simp add: Math_pow10_6 double_eval)
    qed
  next
    assume n: "n = 4294967296000005"
    show ?thesis
      unfolding n
    proof (intro exI [of _ "4503599627370501 / 1048576"] conjI)
      show "round_to_double (of_nat 4294967296000005 / 10 ^ 6) = Finite (4503599627370501 / 1048576)"
        by (simp add: double_eval)
      show "Math_round (js_times (Finite (4503599627370501 / 1048576)) (Math_pow10 6)) = Finite (of_nat 4294967296000005)"
        by (simp add: Math_pow10_6 double_eval)
    qed
  next
    assume n: "n = 4294967296000006"
    show ?thesis
      unfolding n
    proof (intro exI [of _ "2251799813685251 / 524288"] conjI)
      show "round_to_double (of_nat 4294967296000006 / 10 ^ 6) = Finite (2251799813685251 / 524288)"
        by (simp add: double_eval)
      show "Math_round (js_times (Finite (2251799813685251 / 524288)) (Math_pow10 6)) = Finite (of_nat 4294967296000006)"
        by (simp add: Math_pow10_6 double_eval)
    qed
  next
    assume n: "n = 4294967296000007"
    show ?thesis
      unfolding n
    proof (intro exI [of _ "4503599627370503 / 1048576"] conjI)
      show "round_to_double (of_nat 4294967296000007 / 10 ^ 6) = Finite (4503599627370503 / 1048576)"
        by (simp add: double_eval)
      show "Math_round (js_times (Finite (4503599627370503 / 1048576)) (Math_pow10 6)) = Finite (of_nat 4294967296000007)"
        by (simp add: Math_pow10_6 double_eval)
    qed
  next
    assume n: "n = 4294967296000008"
    show ?thesis
      unfolding n
    proof (intro exI [of _ "562949953421313 / 131072"] conjI)
      show "round_to_double (of_nat 4294967296000008 / 10 ^ 6) = Finite (562949953421313 / 131072)"
        by (simp add: double_eval)
      show "Math_round (js_times (Finite (562949953421313 / 131072)) (Math_pow10 6)) = Finite (of_nat 4294967296000008)"
        by (simp add: Math_pow10_6 double_eval)
    qed
  next
    assume n: "n = 4294967296000009"
    show ?thesis
      unfolding n
    proof (intro exI [of _ "4503599627370505 / 1048576"] conjI)
      show "round_to_double (of_nat 4294967296000009 / 10 ^ 6) = Finite (4503599627370505 / 1048576)"
        by (simp add: double_eval)
      show "Math_round (js_times (Finite (4503599627370505 / 1048576)) (Math_pow10 6)) = Finite (of_nat 4294967296000009)"
        by (simp add: Math_pow10_6 double_eval)
    qed
  next
    assume n: "n = 4294967296000010"
    show ?thesis
      unfolding n
    proof (intro exI [of _ "2251799813685253 / 524288"] conjI)
      show "round_to_double (of_nat 4294967296000010 / 10 ^ 6) = Finite (2251799813685253 / 524288)"
        by (simp add: double_eval)
      show "Math_round (js_times (Finite (2251799813685253 / 524288)) (Math_pow10 6)) = Finite (of_nat 4294967296000010)"
        by (simp add: Math_pow10_6 double_eval)
    qed
  qed
qed

lemma scaled_round:
  assumes "n < 4294967296000011"
  shows "\<exists>y. round_to_double (of_nat n / 10 ^ 6) = Finite y
             \<and> Math_round (js_times (Finite y) (Math_pow10 6)) = Finite (of_nat n)"
proof (cases "n < 2 ^ 32 * 10 ^ 6")
  case True
  then show ?thesis by (rule scaled_round_below)
next
  case False
  then have "4294967296000000 \<le> n" by simp
  then show ?thesis using assms by (rule scaled_round_edge)
qed

section \<open>Decimal digits\<close>

lemma is_digit_iff: "is_digit c \<longleftrightarrow> 48 \<le> (of_char c :: nat) \<and> (of_char c :: nat) \<le> 57"
  by (simp add: is_digit_def char_in_def)

lemma digit_char_is_digit: "d < 10 \<Longrightarrow> is_digit (digit_char d)"
  by (simp add: is_digit_iff digit_char_def)

lemma digit_value_digit_char: "d < 10 \<Longrightarrow> digit_value (digit_char d) = d"
  by (simp add: digit_value_def digit_char_def)

lemma digit_char_digit_value: "is_digit c \<Longrightarrow> digit_char (digit_value c) = c"
  by (simp add: is_digit_iff digit_value_def digit_char_def)

lemma digit_value_less: "is_digit c \<Longrightarrow> digit_value c < 10"
  by (auto simp: is_digit_iff digit_value_def)

lemma digit_value_zero: "is_digit c \<Longrightarrow> digit_value c = 0 \<longleftrightarrow> c = CHR ''0''"
proof
  assume d: "is_digit c" and z: "digit_value c = 0"
  from digit_char_digit_value [OF d] z have "c = digit_char 0" by simp
  then show "c = CHR ''0''" by (simp add: digit_char_eval)
next
  assume "c = CHR ''0''"
  then show "digit_value c = 0" by (simp add: digit_value_def)
qed

lemma is_digit_not_space: "is_digit c \<Longrightarrow> \<not> is_space c"
  by (auto simp: is_digit_iff is_space_def)

lemma is_digit_not_sign: "is_digit c \<Longrightarrow> c \<noteq> CHR ''-'' \<and> c \<noteq> CHR ''+'' \<and> c \<noteq> CHR ''.''
    \<and> c \<noteq> CHR ''I'' \<and> c \<noteq> CHR ''x'' \<and> c \<noteq> CHR ''X'' \<and> c \<noteq> CHR ''o'' \<and> c \<noteq> CHR ''O''
    \<and> c \<noteq> CHR ''b'' \<and> c \<noteq> CHR ''B''"
  by (auto simp: is_digit_iff)

lemma digits_value_snoc: "digits_value (ds @ [c]) = 10 * digits_value ds + digit_value c"
  by (simp add: digits_value_def)

lemma digits_value_Nil: "digits_value [] = 0"
  by (simp add: digits_value_def)

lemma digits_value_append:
  "digits_value (a @ b) = digits_value a * 10 ^ length b + digits_value b"
proof (induction b rule: rev_induct)
  case Nil
  show ?case by (simp add: digits_value_Nil)
next
  case (snoc c b)
  have "digits_value (a @ b @ [c]) = 10 * digits_value (a @ b) + digit_value c"
    using digits_value_snoc [of "a @ b" c] by simp
  then show ?case by (simp add: snoc.IH digits_value_snoc algebra_simps)
qed

lemma digits_value_bound: "list_all is_digit ds \<Longrightarrow> digits_value ds < 10 ^ length ds"
proof (induction ds rule: rev_induct)
  case Nil
  show ?case by (simp add: digits_value_Nil)
next
  case (snoc c ds)
  then have "digits_value ds < 10 ^ length ds" and "digit_value c < 10"
    by (simp_all add: digit_value_less)
  then have "10 * digits_value ds + digit_value c < 10 * 10 ^ length ds" by linarith
  then show ?case by (simp add: digits_value_snoc)
qed

lemma string_of_nat_small: "n < 10 \<Longrightarrow> string_of_nat n = [digit_char n]"
  by (simp add: string_of_nat.simps)

lemma string_of_nat_large:
  "10 \<le> n \<Longrightarrow> string_of_nat n = string_of_nat (n div 10) @ [digit_char (n mod 10)]"
  by (subst string_of_nat.simps) simp

lemma string_of_nat_digits: "list_all is_digit (string_of_nat n)"
proof (induction n rule: string_of_nat.induct)
  case (1 n)
  show ?case
  proof (cases "n < 10")
    case True
    then show ?thesis by (simp add: string_of_nat_small digit_char_is_digit)
  next
    case False
    with "1.IH" have "list_all is_digit (string_of_nat (n div 10))" by simp
    with False show ?thesis by (simp add: string_of_nat_large digit_char_is_digit)
  qed
qed

lemma string_of_nat_nonempty: "string_of_nat n \<noteq> []"
  by (subst string_of_nat.simps) simp

lemma digits_value_string_of_nat: "digits_value (string_of_nat n) = n"
proof (induction n rule: string_of_nat.induct)
  case (1 n)
  show ?case
  proof (cases "n < 10")
    case True
    then show ?thesis
      by (simp add: string_of_nat_small digits_value_def digit_value_digit_char)
  next
    case False
    with "1.IH" have "digits_value (string_of_nat (n div 10)) = n div 10" by simp
    with False show ?thesis
      by (simp add: string_of_nat_large digits_value_snoc digit_value_digit_char)
  qed
qed

lemma string_of_nat_canonical:
  "canonical_digits ds \<Longrightarrow> string_of_nat (digits_value ds) = ds"
proof (induction ds rule: rev_induct)
  case Nil
  then show ?case by (simp add: canonical_digits_def)
next
  case (snoc c ds)
  from snoc.prems have dc: "is_digit c" and dds: "list_all is_digit ds"
    by (simp_all add: canonical_digits_def)
  show ?case
  proof (cases "ds = []")
    case True
    then show ?thesis
      using dc by (simp add: digits_value_def string_of_nat_small digit_value_less digit_char_digit_value)
  next
    case False
    then obtain h t where ht: "ds = h # t" by (cases ds) auto
    from snoc.prems ht have h0: "h \<noteq> CHR ''0''" by (auto simp: canonical_digits_def)
    have can: "canonical_digits ds" using False dds h0 ht by (simp add: canonical_digits_def)
    have hd: "is_digit h" using dds ht by simp
    have "digits_value ds = digit_value h * 10 ^ length t + digits_value t"
      using digits_value_append [of "[h]" t] by (simp add: ht digits_value_def)
    moreover have "0 < digit_value h" using digit_value_zero [OF hd] h0 by simp
    ultimately have pos: "0 < digits_value ds" by simp
    have ge: "10 \<le> digits_value (ds @ [c])" using pos by (simp add: digits_value_snoc)
    have dv: "digits_value (ds @ [c]) div 10 = digits_value ds"
      and md: "digits_value (ds @ [c]) mod 10 = digit_value c"
      using digit_value_less [OF dc] by (simp_all add: digits_value_snoc)
    show ?thesis
      by (simp add: string_of_nat_large [OF ge] dv md snoc.IH [OF can] digit_char_digit_value [OF dc])
  qed
qed

lemma digits_value_zeros: "digits_value (replicate k CHR ''0'') = 0"
proof (induction k)
  case 0
  show ?case by (simp add: digits_value_Nil)
next
  case (Suc k)
  have "replicate (Suc k) CHR ''0'' = replicate k CHR ''0'' @ [CHR ''0'']"
    by (simp add: replicate_append_same)
  then show ?case by (simp only: digits_value_snoc Suc.IH) (simp add: digit_value_def)
qed

lemma digits_value_eq_0:
  "list_all is_digit fs \<Longrightarrow> digits_value fs = 0 \<longleftrightarrow> fs = replicate (length fs) CHR ''0''"
proof (induction fs rule: rev_induct)
  case Nil
  show ?case by (simp add: digits_value_Nil)
next
  case (snoc c fs)
  then have dc: "is_digit c" and ih: "digits_value fs = 0 \<longleftrightarrow> fs = replicate (length fs) CHR ''0''"
    by simp_all
  have "digits_value (fs @ [c]) = 0 \<longleftrightarrow> digits_value fs = 0 \<and> c = CHR ''0''"
    using digit_value_zero [OF dc] by (simp add: digits_value_snoc)
  also have "\<dots> \<longleftrightarrow> fs @ [c] = replicate (length (fs @ [c])) CHR ''0''"
    unfolding ih by (simp add: replicate_append_same [symmetric])
  finally show ?case .
qed

lemma strip_trailing_zeros_pad:
  "strip_trailing_zeros (fs @ replicate k CHR ''0'') = strip_trailing_zeros fs"
proof -
  have "dropWhile (\<lambda>c. c = CHR ''0'') (replicate k CHR ''0'' @ rev fs) = dropWhile (\<lambda>c. c = CHR ''0'') (rev fs)"
    by (induction k) simp_all
  then show ?thesis by (simp add: strip_trailing_zeros_def)
qed

lemma strip_trailing_zeros_zeros: "strip_trailing_zeros (replicate k CHR ''0'') = []"
  using strip_trailing_zeros_pad [of "[]" k] by (simp add: strip_trailing_zeros_def)

lemma strip_trailing_zeros_Nil_iff:
  "strip_trailing_zeros fs = [] \<longleftrightarrow> fs = replicate (length fs) CHR ''0''"
proof
  assume "strip_trailing_zeros fs = []"
  then have "dropWhile (\<lambda>c. c = CHR ''0'') (rev fs) = []" by (simp add: strip_trailing_zeros_def)
  then have "\<forall>c\<in>set (rev fs). c = CHR ''0''" by (simp add: dropWhile_eq_Nil_conv)
  then have "\<forall>c\<in>set fs. c = CHR ''0''" by simp
  then show "fs = replicate (length fs) CHR ''0''" by (simp add: replicate_length_same)
next
  assume "fs = replicate (length fs) CHR ''0''"
  then show "strip_trailing_zeros fs = []" using strip_trailing_zeros_zeros [of "length fs"] by simp
qed

lemma padStart_zero: "padStart n ''0'' s = replicate (n - length s) CHR ''0'' @ s"
  by (simp add: padStart_def concat_replicate_trivial)


lemma string_of_nat_length: "0 < k \<Longrightarrow> n < 10 ^ k \<Longrightarrow> length (string_of_nat n) \<le> k"
proof (induction n arbitrary: k rule: string_of_nat.induct)
  case (1 n)
  show ?case
  proof (cases "n < 10")
    case True
    with "1.prems" show ?thesis by (simp add: string_of_nat_small)
  next
    case False
    with "1.prems" obtain j where k: "k = Suc j" by (cases k) auto
    have jpos: "0 < j"
    proof (rule ccontr)
      assume "\<not> 0 < j"
      with k "1.prems" False show False by simp
    qed
    have "n div 10 < 10 ^ j" using "1.prems"(2) by (simp add: k less_mult_imp_div_less mult.commute)
    from "1.IH" [OF False jpos this] have "length (string_of_nat (n div 10)) \<le> j" .
    with False show ?thesis by (simp add: string_of_nat_large k)
  qed
qed

lemma pad_digits:
  "list_all is_digit fs \<Longrightarrow> fs \<noteq> [] \<Longrightarrow>
     padStart (length fs) ''0'' (string_of_nat (digits_value fs)) = fs"
proof (induction fs)
  case Nil
  then show ?case by simp
next
  case (Cons h t)
  then have dh: "is_digit h" and dt: "list_all is_digit t" by simp_all
  show ?case
  proof (cases "t = []")
    case True
    then show ?thesis
      using dh by (simp add: digits_value_def string_of_nat_small digit_value_less
                     digit_char_digit_value padStart_zero)
  next
    case False
    show ?thesis
    proof (cases "h = CHR ''0''")
      case True
      have v: "digits_value (h # t) = digits_value t"
        using digits_value_append [of "[h]" t] True by (simp add: digits_value_def digit_value_def)
      have tpos: "0 < length t" using False by simp
      have len: "length (string_of_nat (digits_value t)) \<le> length t"
        using string_of_nat_length [OF tpos digits_value_bound [OF dt]] .
      have ih: "replicate (length t - length (string_of_nat (digits_value t))) CHR ''0''
                  @ string_of_nat (digits_value t) = t"
        using Cons.IH [OF dt False] by (simp add: padStart_zero)
      have "padStart (length (h # t)) ''0'' (string_of_nat (digits_value (h # t)))
              = CHR ''0'' # (replicate (length t - length (string_of_nat (digits_value t))) CHR ''0''
                             @ string_of_nat (digits_value t))"
        unfolding v padStart_zero using len by (simp add: Suc_diff_le)
      with ih True show ?thesis by simp
    next
      case h0: False
      have can: "canonical_digits (h # t)" using dh dt h0 by (simp add: canonical_digits_def)
      show ?thesis
        by (simp add: string_of_nat_canonical [OF can] padStart_zero)
    qed
  qed
qed

section \<open>Parsing digit strings\<close>

lemma trim_digits: "list_all is_digit s \<Longrightarrow> trim s = s"
proof -
  assume d: "list_all is_digit s"
  have a: "dropWhile is_space s = s"
    using d by (cases s) (simp_all add: is_digit_not_space)
  have "list_all is_digit (rev s)" using d by (simp add: list_all_iff)
  then have b: "dropWhile is_space (rev s) = rev s"
    by (cases "rev s") (simp_all add: is_digit_not_space)
  show ?thesis by (simp add: trim_def a b)
qed

lemma split_sign_digits: "list_all is_digit s \<Longrightarrow> split_sign s = (False, s)"
  by (cases s) (simp_all add: split_sign_def is_digit_not_sign)

lemma take2_digits: "list_all is_digit s \<Longrightarrow> take 2 s = [a, b] \<Longrightarrow> is_digit b"
  by (cases s; cases "tl s") auto

lemma StringToBigInt_digits:
  assumes d: "list_all is_digit s" and ne: "s \<noteq> []"
  shows "StringToBigInt s = Inr (int (digits_value s))"
proof -
  have x: "\<not> is_digit b \<Longrightarrow> take 2 s \<noteq> [a, b]" for a b
    using take2_digits [OF d] by blast
  have x1: "take 2 s \<noteq> ''0x''" by (rule x) (simp add: is_digit_iff)
  have x2: "take 2 s \<noteq> ''0X''" by (rule x) (simp add: is_digit_iff)
  have x3: "take 2 s \<noteq> ''0o''" by (rule x) (simp add: is_digit_iff)
  have x4: "take 2 s \<noteq> ''0O''" by (rule x) (simp add: is_digit_iff)
  have x5: "take 2 s \<noteq> ''0b''" by (rule x) (simp add: is_digit_iff)
  have x6: "take 2 s \<noteq> ''0B''" by (rule x) (simp add: is_digit_iff)
  show ?thesis
    unfolding StringToBigInt_def trim_digits [OF d] split_sign_digits [OF d] Let_def
    using d ne x1 x2 x3 x4 x5 x6 by simp
qed

lemma takeWhile_digits_dot:
  "list_all is_digit ip \<Longrightarrow> takeWhile is_digit (ip @ CHR ''.'' # fp) = ip"
  "list_all is_digit ip \<Longrightarrow> dropWhile is_digit (ip @ CHR ''.'' # fp) = CHR ''.'' # fp"
  by (induction ip) (simp_all add: is_digit_iff)

lemma takeWhile_digits_all:
  "list_all is_digit ds \<Longrightarrow> takeWhile is_digit ds = ds"
  "list_all is_digit ds \<Longrightarrow> dropWhile is_digit ds = []"
  by (induction ds) simp_all

lemma parseFloat_digits:
  assumes ip: "list_all is_digit ip" and ne: "ip \<noteq> []"
  shows "parseFloat ip = round_to_double (of_nat (digits_value ip))"
proof -
  obtain h t where ht: "ip = h # t" using ne by (cases ip) auto
  have dh: "is_digit h" using ip ht by simp
  have sp: "dropWhile is_space ip = ip" by (simp add: ht is_digit_not_space [OF dh])
  have inf: "take 8 ip \<noteq> ''Infinity''" by (simp add: ht is_digit_not_sign [OF dh])
  show ?thesis
    unfolding parseFloat_def sp split_sign_digits [OF ip] Let_def
    using inf ne
    by (simp add: takeWhile_digits_all [OF ip] parse_exponent_def pow10_def)
qed

lemma parseFloat_digits_dot:
  assumes ip: "list_all is_digit ip" and ne: "ip \<noteq> []" and fp: "list_all is_digit fp"
  shows "parseFloat (ip @ CHR ''.'' # fp)
           = round_to_double (of_nat (digits_value (ip @ fp)) / 10 ^ length fp)"
proof -
  obtain h t where ht: "ip = h # t" using ne by (cases ip) auto
  have dh: "is_digit h" using ip ht by simp
  let ?s = "ip @ CHR ''.'' # fp"
  have sp: "dropWhile is_space ?s = ?s" by (simp add: ht is_digit_not_space [OF dh])
  have sg: "split_sign ?s = (False, ?s)" by (simp add: ht split_sign_def is_digit_not_sign [OF dh])
  have inf: "take 8 ?s \<noteq> ''Infinity''" by (simp add: ht is_digit_not_sign [OF dh])
  have p10: "pow10 (- int (length fp)) = 1 / 10 ^ length fp"
    by (simp add: pow10_def)
  show ?thesis
    unfolding parseFloat_def sp sg Let_def
    using inf ne
    by (simp add: takeWhile_digits_dot [OF ip] takeWhile_digits_all [OF fp]
          parse_exponent_def p10)
qed

lemma parseFloat_decimal_amount:
  assumes ip: "list_all is_digit ip" and ne: "ip \<noteq> []" and fp: "list_all is_digit fp"
  shows "parseFloat (decimal_amount ip fp) = round_to_double (amount_value ip fp)"
proof (cases "fp = []")
  case True
  then show ?thesis
    using parseFloat_digits [OF ip ne] by (simp add: decimal_amount_def amount_value_def)
next
  case False
  then show ?thesis
    using parseFloat_digits_dot [OF ip ne fp] by (simp add: decimal_amount_def amount_value_def)
qed

section \<open>The amount round trip\<close>

lemma scaled_value:
  assumes len: "length fp \<le> 6"
  shows "amount_value ip fp * 10 ^ 6 = of_nat (digits_value (ip @ fp) * 10 ^ (6 - length fp))"
proof -
  have e: "(10::rat) ^ 6 = 10 ^ length fp * 10 ^ (6 - length fp)"
    using len by (simp only: power_add [symmetric]) simp
  show ?thesis unfolding amount_value_def e by simp
qed

lemma Number_toString_nat:
  "n < 2 ^ 53 \<Longrightarrow> Number_toString P (Finite (of_nat n)) = string_of_nat n"
proof -
  assume "n < 2 ^ 53"
  then have "(of_nat n :: rat) < of_nat (2 ^ 53)" by (simp only: of_nat_less_iff)
  then have "\<bar>of_nat n :: rat\<bar> < 2 ^ 53" by simp
  then show ?thesis by (simp add: Number_toString_def string_of_int_def)
qed

lemma toRawAmount_decimal:
  assumes d: "list_all is_digit ip" and ne: "ip \<noteq> []" and fp: "list_all is_digit fp"
    and len: "length fp \<le> 6" and small: "amount_value ip fp * 10 ^ 6 < 4294967296000011"
  shows "toRawAmount P (AmountString (decimal_amount ip fp)) 6
           = Inr (string_of_nat (digits_value (ip @ fp) * 10 ^ (6 - length fp)))"
proof -
  define n where "n = digits_value (ip @ fp) * 10 ^ (6 - length fp)"
  have v: "amount_value ip fp * 10 ^ 6 = of_nat n" unfolding n_def by (rule scaled_value [OF len])
  then have a: "amount_value ip fp = of_nat n / 10 ^ 6" by (simp add: field_simps)
  from small v have "(of_nat n :: rat) < of_nat 4294967296000011" by simp
  then have nb: "n < 4294967296000011" by (simp only: of_nat_less_iff)
  then have n53: "n < 2 ^ 53" by simp
  from scaled_round [OF nb] obtain y
    where y: "round_to_double (of_nat n / 10 ^ 6) = Finite y"
      and r: "Math_round (js_times (Finite y) (Math_pow10 6)) = Finite (of_nat n)" by blast
  have pf: "parseFloat (decimal_amount ip fp) = Finite y"
    unfolding parseFloat_decimal_amount [OF d ne fp] a by (rule y)
  show ?thesis
    unfolding n_def [symmetric]
    by (simp add: toRawAmount_def pf r Number_toString_nat [OF n53])
qed

lemma NumberToBigInt_pow10_6: "NumberToBigInt (Math_pow10 6) = Inr 1000000"
  by (simp add: Math_pow10_6 NumberToBigInt_def)

lemma fromRawAmount_digits:
  assumes fz: "list_all is_digit fz" and len: "length fz = 6"
  shows "fromRawAmount (RawString (string_of_nat (digits_value (ip @ fz)))) 6
           = Inr (decimal_amount (string_of_nat (digits_value ip)) (strip_trailing_zeros fz))"
proof -
  define n where "n = digits_value (ip @ fz)"
  have n: "n = digits_value ip * 1000000 + digits_value fz"
    unfolding n_def using digits_value_append [of ip fz] by (simp add: len)
  have fzb: "digits_value fz < 1000000" using digits_value_bound [OF fz] by (simp add: len)
  have dv: "n div 1000000 = digits_value ip" and md: "n mod 1000000 = digits_value fz"
    using fzb by (simp_all add: n)
  have big: "StringToBigInt (string_of_nat n) = Inr (int n)"
    using StringToBigInt_digits [OF string_of_nat_digits string_of_nat_nonempty, of n]
    by (simp add: digits_value_string_of_nat)
  have whole: "bigint_div (int n) 1000000 = int (digits_value ip)"
    by (cases "n = 0") (simp_all add: bigint_div_def dv [symmetric] zdiv_int)
  have frac: "bigint_mod (int n) 1000000 = int (digits_value fz)"
    by (cases "n = 0") (simp_all add: bigint_mod_def md [symmetric] zmod_int)
  have ws: "string_of_int (int (digits_value ip)) = string_of_nat (digits_value ip)"
    by (simp add: string_of_int_def)
  show ?thesis
  proof (cases "digits_value fz = 0")
    case True
    then have "strip_trailing_zeros fz = []"
      using digits_value_eq_0 [OF fz] strip_trailing_zeros_Nil_iff [of fz] by simp
    then show ?thesis
      unfolding n_def [symmetric]
      by (simp add: fromRawAmount_def big NumberToBigInt_pow10_6 whole frac True ws decimal_amount_def)
  next
    case False
    then have nz: "strip_trailing_zeros fz \<noteq> []"
      using digits_value_eq_0 [OF fz] strip_trailing_zeros_Nil_iff [of fz] by simp
    have fne: "fz \<noteq> []" using len by auto
    have pad: "padStart 6 ''0'' (string_of_nat (digits_value fz)) = fz"
      using pad_digits [OF fz fne] by (simp add: len)
    have fs: "string_of_int (int (digits_value fz)) = string_of_nat (digits_value fz)"
      by (simp add: string_of_int_def)
    show ?thesis
      unfolding n_def [symmetric]
      using False nz
      by (simp add: fromRawAmount_def big NumberToBigInt_pow10_6 whole frac ws
            fs pad decimal_amount_def Let_def)
  qed
qed

text \<open>
  Claim C1, as amended. Take an amount below 4294967296.000011 (that is \<open>2\<^sup>3\<^sup>2\<close> and eleven
  millionths) written as decimal digits without a sign, with at most 6 fractional digits.
  Then \<open>toRawAmount\<close> returns exactly the amount times \<open>10\<^sup>6\<close>, in decimal digits, and
  \<open>fromRawAmount\<close> of that string returns the amount again, normalised: redundant leading
  zeros dropped (so an amount written without them keeps its integer digits), the trailing
  zeros of its fraction stripped, and no decimal point when the fraction is zero. (The
  claim as stated, for every amount with at most 6 decimal places, fails where the
  binary64 number nearest to the amount is too far from it: the counterexample below is
  4294967296.000011, the least such amount, which comes back as 4294967296.000012.)
\<close>

theorem C1_amount_roundtrip:
  assumes ip: "list_all is_digit ip" and ne: "ip \<noteq> []"
    and fp: "list_all is_digit fp" and len: "length fp \<le> 6"
    and small: "amount_value ip fp * 10 ^ 6 < 4294967296000011"
  shows "\<exists>raw. toRawAmount P (AmountString (decimal_amount ip fp)) STABLECOIN_DECIMALS = Inr raw
           \<and> of_nat (digits_value raw) = amount_value ip fp * 10 ^ 6
           \<and> fromRawAmount (RawString raw) STABLECOIN_DECIMALS
               = Inr (decimal_amount (string_of_nat (digits_value ip)) (strip_trailing_zeros fp))
           \<and> (canonical_digits ip
                \<longrightarrow> fromRawAmount (RawString raw) STABLECOIN_DECIMALS
                      = Inr (decimal_amount ip (strip_trailing_zeros fp)))"
proof -
  define fz where "fz = fp @ replicate (6 - length fp) CHR ''0''"
  have z: "is_digit CHR ''0''" by (simp add: is_digit_iff)
  have zs: "list_all is_digit (replicate k CHR ''0'')" for k by (induction k) (simp_all add: z)
  have fzd: "list_all is_digit fz" using fp zs by (simp add: fz_def)
  have fzl: "length fz = 6" using len by (simp add: fz_def)
  have "digits_value (ip @ fz) = digits_value ((ip @ fp) @ replicate (6 - length fp) CHR ''0'')"
    by (simp add: fz_def)
  also have "\<dots> = digits_value (ip @ fp) * 10 ^ (6 - length fp)"
    by (simp only: digits_value_append digits_value_zeros length_replicate, simp?)
  finally have n: "digits_value (ip @ fz) = digits_value (ip @ fp) * 10 ^ (6 - length fp)" .
  have st: "strip_trailing_zeros fz = strip_trailing_zeros fp"
    unfolding fz_def by (rule strip_trailing_zeros_pad)
  let ?raw = "string_of_nat (digits_value (ip @ fz))"
  have 1: "toRawAmount P (AmountString (decimal_amount ip fp)) STABLECOIN_DECIMALS = Inr ?raw"
    unfolding STABLECOIN_DECIMALS_def n by (rule toRawAmount_decimal [OF ip ne fp len small])
  have 2: "of_nat (digits_value ?raw) = amount_value ip fp * 10 ^ 6"
    unfolding digits_value_string_of_nat n scaled_value [OF len] by (rule refl)
  have 3: "fromRawAmount (RawString ?raw) STABLECOIN_DECIMALS
             = Inr (decimal_amount (string_of_nat (digits_value ip)) (strip_trailing_zeros fp))"
    unfolding STABLECOIN_DECIMALS_def st [symmetric] by (rule fromRawAmount_digits [OF fzd fzl])
  have 4: "fromRawAmount (RawString ?raw) STABLECOIN_DECIMALS
             = Inr (decimal_amount ip (strip_trailing_zeros fp))" if "canonical_digits ip"
    using 3 string_of_nat_canonical [OF that] by simp
  from 1 2 3 4 show ?thesis by blast
qed

section \<open>Rounding of amounts\<close>

lemmas digits_eval = string_of_int_def string_of_nat.simps digit_char_eval digits_value_def
  digit_value_def is_digit_iff













lemma fromRawAmount_negative:
  "fromRawAmount (RawString ''-1500000'') 6 = Inr ''-1.-5''"
proof -
  have t: "trim ''-1500000'' = ''-1500000''" by (simp add: trim_def is_space_def)
  have b: "StringToBigInt ''-1500000'' = Inr (- 1500000)"
    by (simp add: StringToBigInt_def t split_sign_def Let_def digits_value_def digit_value_def is_digit_iff)
  show ?thesis
    by (simp add: fromRawAmount_def b NumberToBigInt_pow10_6 bigint_div_def bigint_mod_def
          digits_eval padStart_zero strip_trailing_zeros_def Let_def)
qed

lemma raw_4294967296_000011:
  "toRawAmount mock_platform (AmountString (decimal_amount ''4294967296'' ''000011'')) STABLECOIN_DECIMALS
     = Inr ''4294967296000012''"
proof -
  have "parseFloat (decimal_amount ''4294967296'' ''000011'')
          = round_to_double (amount_value ''4294967296'' ''000011'')"
    by (rule parseFloat_decimal_amount) (simp_all add: is_digit_iff)
  moreover have "amount_value ''4294967296'' ''000011'' = 4294967296000011 / 1000000"
    by (simp add: amount_value_def digits_value_def digit_value_def)
  moreover have "round_to_double (4294967296000011 / 1000000) = Finite (1125899906842627 / 262144)"
    by (simp add: double_eval)
  ultimately have pf: "parseFloat (decimal_amount ''4294967296'' ''000011'')
                         = Finite (1125899906842627 / 262144)" by simp
  have m: "js_times (Finite (1125899906842627 / 262144)) (Math_pow10 6) = Finite (8589934592000023 / 2)"
    unfolding Math_pow10_6 by (simp add: double_eval)
  have f: "\<lfloor>(8589934592000023 / 2 :: rat) + 1 / 2\<rfloor> = 4294967296000012" by simp
  have s: "string_of_int 4294967296000012 = ''4294967296000012''" by (simp add: digits_eval)
  have t: "Number_toString mock_platform (Finite 4294967296000012) = ''4294967296000012''"
    by (simp add: Number_toString_def s)
  show ?thesis
    by (simp add: toRawAmount_def STABLECOIN_DECIMALS_def pf m f t)
qed

lemma back_4294967296000012:
  "fromRawAmount (RawString ''4294967296000012'') STABLECOIN_DECIMALS = Inr ''4294967296.000012''"
proof -
  have b: "StringToBigInt ''4294967296000012'' = Inr 4294967296000012"
    using StringToBigInt_digits [of "''4294967296000012''"]
    by (simp add: is_digit_iff digits_value_def digit_value_def)
  have z: "replicate 4 CHR ''0'' = ''0000''" by (simp add: eval_nat_numeral)
  show ?thesis
    by (simp add: fromRawAmount_def STABLECOIN_DECIMALS_def b NumberToBigInt_pow10_6 bigint_div_def
          bigint_mod_def digits_eval padStart_zero z strip_trailing_zeros_def Let_def)
qed

theorem C1_roundtrip_counterexample:
  "decimal_amount ''4294967296'' ''000011'' = ''4294967296.000011''
   \<and> canonical_digits ''4294967296'' \<and> list_all is_digit ''000011'' \<and> length ''000011'' \<le> 6
   \<and> toRawAmount mock_platform (AmountString ''4294967296.000011'') STABLECOIN_DECIMALS
       = Inr ''4294967296000012''
   \<and> fromRawAmount (RawString ''4294967296000012'') STABLECOIN_DECIMALS = Inr ''4294967296.000012''
   \<and> ''4294967296.000012'' \<noteq> decimal_amount ''4294967296'' (strip_trailing_zeros ''000011'')"
proof -
  have d: "decimal_amount ''4294967296'' ''000011'' = ''4294967296.000011''"
    by (simp add: decimal_amount_def)
  have c: "canonical_digits ''4294967296''" "list_all is_digit ''000011''"
    by (simp_all add: canonical_digits_def is_digit_iff)
  have n: "decimal_amount ''4294967296'' (strip_trailing_zeros ''000011'') = ''4294967296.000011''"
    by (simp add: decimal_amount_def strip_trailing_zeros_def)
  from raw_4294967296_000011 back_4294967296000012 d c show ?thesis unfolding n by simp
qed

theorem C1_amount_roundtrip_witness:
  "list_all is_digit ''100'' \<and> ''100'' \<noteq> [] \<and> list_all is_digit ''50'' \<and> length ''50'' \<le> 6
   \<and> amount_value ''100'' ''50'' * 10 ^ 6 < 4294967296000011
   \<and> canonical_digits ''100''
   \<and> (\<exists>raw. toRawAmount mock_platform (AmountString ''100.50'') STABLECOIN_DECIMALS = Inr raw
          \<and> of_nat (digits_value raw) = (100500000 :: rat)
          \<and> fromRawAmount (RawString raw) STABLECOIN_DECIMALS = Inr ''100.5'')"
proof -
  have c: "canonical_digits ''100''" by (simp add: canonical_digits_def is_digit_iff)
  have i: "list_all is_digit ''100''" and f: "list_all is_digit ''50''"
    by (simp_all add: is_digit_iff)
  have e: "''100'' \<noteq> []" and l: "length ''50'' \<le> 6" by simp_all
  have v: "amount_value ''100'' ''50'' * 10 ^ 6 = 100500000"
    by (simp add: amount_value_def digits_value_def digit_value_def)
  have s: "amount_value ''100'' ''50'' * 10 ^ 6 < 4294967296000011" unfolding v by simp
  have d: "decimal_amount ''100'' ''50'' = ''100.50''" by (simp add: decimal_amount_def)
  have n: "decimal_amount ''100'' (strip_trailing_zeros ''50'') = ''100.5''"
    by (simp add: decimal_amount_def strip_trailing_zeros_def)
  from C1_amount_roundtrip [OF i e f l s, of mock_platform] c
  have "\<exists>raw. toRawAmount mock_platform (AmountString ''100.50'') STABLECOIN_DECIMALS = Inr raw
          \<and> of_nat (digits_value raw) = (100500000 :: rat)
          \<and> fromRawAmount (RawString raw) STABLECOIN_DECIMALS = Inr ''100.5''"
    unfolding d n v by blast
  with c i e f l s show ?thesis by blast
qed

end
